theory Spec2Isabelle
  imports Complex_Main "HOL-Library.Log_Nat"
begin

section \<open>FreqDemod: the stages of \<open>demodulate.py\<close> (class \<open>Signal\<close>)\<close>

text \<open>
  The \<open>Signal\<close> object keeps every array of a work-up in one HDF5 file \<open>self.f\<close>,
  keyed by path-like names. Each method reads datasets written by earlier methods and
  adds new ones with \<open>create_dataset\<close>; a Python exception leaves in the file whatever
  had been created before it was raised.

  Conventions of the embedding:
  \<^item> a Python float or \<open>numpy.float64\<close> is an exact real number: rounding is not
    modelled, except at the two end weights of \<open>np.blackman\<close>, where it decides the sign
    (\<open>fl\<close> below is IEEE rounding to the nearest double); a run that would produce
    \<open>inf\<close> or \<open>nan\<close> without raising has the outcome \<open>NonFinite\<close>;
  \<^item> a Python int is an \<open>int\<close>, an array is a list;
  \<^item> the file is a record with one optional field per dataset; of each dataset's
    attributes the numeric ones and the abscissa reference are kept, the descriptive
    strings (name, unit, label, help) and the textual report are left out;
  \<^item> an exception is a value of \<open>exn\<close>, returned together with the file as it is
    when the exception is raised.
\<close>

subsection \<open>Exceptions, datasets, the file\<close>

datatype exn =
    KeyError            \<comment> \<open>\<open>self.f[name]\<close> with no such dataset\<close>
  | IndexError          \<comment> \<open>an array read out of range, a boolean index of the wrong length\<close>
  | ValueError          \<comment> \<open>\<open>math.log(0, 2)\<close>, \<open>np.ones\<close> of a negative size, shapes that do not fit\<close>
  | TypeError           \<comment> \<open>h5py: a boolean mask whose shape is not the dataset's\<close>
  | ZeroDivisionError
  | OverflowError       \<comment> \<open>\<open>int\<close> or \<open>math.ceil\<close> of an infinite float\<close>
  | UnboundLocalError   \<comment> \<open>a local variable read before any branch assigned it\<close>
  | NameExists          \<comment> \<open>h5py: \<open>create_dataset\<close> under a name already in the file\<close>

text \<open>A time or frequency axis: the values, and the attributes \<open>initial\<close> and \<open>step\<close>
  once they have been written.\<close>

record axis =
  vals :: "real list"
  initial_step :: "(real \<times> real) option"

datatype abscissa = Abs_x | Abs_x_binarated | Abs_x_rippleless

record window =
  weights :: "real list"
  w_abscissa :: abscissa
  t_window :: real
  t_window_actual :: real

record mask =
  bits :: "bool list"
  m_abscissa :: abscissa

text \<open>\<open>workup/freq/FT\<close> holds a complex array (\<open>psd=False\<close>) or a real one (\<open>psd=True\<close>).\<close>

datatype spectrum = Linear "complex list" | Power "real list"

record phase =
  cycles :: "real list"
  p_abscissa :: abscissa

record signal =
  f_x :: "axis option"                    \<comment> \<open>\<open>x\<close>\<close>
  f_y :: "real list option"               \<comment> \<open>\<open>y\<close>\<close>
  f_mask_binarate :: "mask option"        \<comment> \<open>\<open>workup/time/mask/binarate\<close>\<close>
  f_x_binarated :: "axis option"          \<comment> \<open>\<open>workup/time/x_binarated\<close>\<close>
  f_window_cyclicize :: "window option"   \<comment> \<open>\<open>workup/time/window/cyclicize\<close>\<close>
  f_freq :: "axis option"                 \<comment> \<open>\<open>workup/freq/freq\<close>\<close>
  f_FT :: "spectrum option"               \<comment> \<open>\<open>workup/freq/FT\<close>\<close>
  f_Hc :: "real list option"              \<comment> \<open>\<open>workup/freq/filter/Hc\<close>\<close>
  f_bp :: "real list option"              \<comment> \<open>\<open>workup/freq/filter/bp\<close>\<close>
  f_mask_rippleless :: "mask option"      \<comment> \<open>\<open>workup/time/mask/rippleless\<close>\<close>
  f_x_rippleless :: "axis option"         \<comment> \<open>\<open>workup/time/x_rippleless\<close>\<close>
  f_p :: "phase option"                   \<comment> \<open>\<open>workup/time/p\<close>, written by \<open>ifft\<close>\<close>
  f_fit_x :: "real list option"           \<comment> \<open>\<open>workup/fit/x\<close>\<close>
  f_fit_y :: "real list option"           \<comment> \<open>\<open>workup/fit/y\<close>\<close>
  stdout :: "string list"                 \<comment> \<open>lines written by \<open>print\<close>\<close>

datatype outcome =
    Returned signal       \<comment> \<open>the method returns; the file is as given\<close>
  | Raised exn signal     \<comment> \<open>the method raises; the file is as given\<close>
  | NonFinite             \<comment> \<open>the method goes on with \<open>inf\<close> or \<open>nan\<close> values\<close>

fun file_after :: "outcome \<Rightarrow> signal option" where
  "file_after (Returned st) = Some st"
| "file_after (Raised e st) = Some st"
| "file_after NonFinite = None"

definition empty_signal :: signal where
  "empty_signal =
     \<lparr>f_x = None, f_y = None, f_mask_binarate = None, f_x_binarated = None,
      f_window_cyclicize = None, f_freq = None, f_FT = None, f_Hc = None, f_bp = None,
      f_mask_rippleless = None, f_x_rippleless = None, f_p = None, f_fit_x = None,
      f_fit_y = None, stdout = []\<rparr>"

subsection \<open>Rounding\<close>

text \<open>Python 3's \<open>round\<close>: to the nearest integer, a tie goes to the even one.\<close>

definition py_round :: "real \<Rightarrow> int" where
  "py_round v =
     (let f = \<lfloor>v\<rfloor>; d = v - of_int f
      in if d < 1 / 2 then f else if 1 / 2 < d then f + 1 else if even f then f else f + 1)"

text \<open>The double nearest to a real (53 significant bits, a tie goes to the even
  significand), for values in the normal range of IEEE binary64.\<close>

definition fl :: "real \<Rightarrow> real" where
  "fl v =
     (if v = 0 then 0
      else let e = \<lfloor>log 2 \<bar>v\<bar>\<rfloor>; ulp = 2 powr (of_int e - 52)
           in of_int (py_round (v / ulp)) * ulp)"

subsection \<open>Array operations of numpy and h5py\<close>

text \<open>\<open>a[m]\<close> for a boolean array \<open>m\<close> of the length of \<open>a\<close>: the entries of \<open>a\<close>
  where \<open>m\<close> is true, in order.\<close>

definition select :: "'a list \<Rightarrow> bool list \<Rightarrow> 'a list" where
  "select a m = map fst (filter snd (zip a m))"

definition count_nonzero :: "bool list \<Rightarrow> nat" where
  "count_nonzero m = length (filter id m)"

text \<open>\<open>indices = np.arange(n)\<close>.\<close>

definition arange :: "nat \<Rightarrow> int list" where
  "arange n = map int [0..<n]"

subsection \<open>\<open>load_nparray\<close>\<close>

definition load_nparray :: "signal \<Rightarrow> real list \<Rightarrow> real \<Rightarrow> outcome" where
  "load_nparray st s dt =
     (if f_x st \<noteq> None then Raised NameExists st
      else
        let st1 = st\<lparr>f_x := Some \<lparr>vals = map (\<lambda>i. dt * of_int i) (arange (length s)),
                                 initial_step = Some (0, dt)\<rparr>\<rparr>
        in if f_y st1 \<noteq> None then Raised NameExists st1
           else Returned (st1\<lparr>f_y := Some s\<rparr>))"

subsection \<open>\<open>time_mask_binarate\<close>: the Length Normalizer\<close>

text \<open>\<open>int(math.floor(math.log(n, 2)))\<close> for \<open>n > 0\<close>.\<close>

definition floor_log2 :: "int \<Rightarrow> int" where
  "floor_log2 n = \<lfloor>log 2 (real_of_int n)\<rfloor>"

text \<open>The \<open>if\<close>/\<open>elif\<close> chain on \<open>mode\<close>; with any other mode neither \<open>n_start\<close> nor
  \<open>n_stop\<close> is assigned.\<close>

definition binarate_bounds :: "string \<Rightarrow> int \<Rightarrow> int \<Rightarrow> (int \<times> int) option" where
  "binarate_bounds mode n n2 =
     (if mode = ''middle'' then
        (let n_start = \<lfloor>real_of_int (n - n2) / 2\<rfloor> in Some (n_start, n_start + n2))
      else if mode = ''start'' then Some (0, n2)
      else if mode = ''end'' then Some (n - n2, n)
      else None)"

definition time_mask_binarate :: "signal \<Rightarrow> string \<Rightarrow> outcome" where
  "time_mask_binarate st mode =
     (case f_y st of
        None \<Rightarrow> Raised KeyError st
      | Some ys \<Rightarrow>
          let n = int (length ys) in
          if n = 0 then Raised ValueError st
          else
            let n2 = 2 ^ nat (floor_log2 n) in
            (case binarate_bounds mode n n2 of
               None \<Rightarrow> Raised UnboundLocalError st
             | Some (n_start, n_stop) \<Rightarrow>
                 let msk = map (\<lambda>i. n_start \<le> i \<and> i < n_stop) (arange (length ys)) in
                 if f_mask_binarate st \<noteq> None then Raised NameExists st
                 else
                   let st1 = st\<lparr>f_mask_binarate := Some \<lparr>bits = msk, m_abscissa = Abs_x\<rparr>\<rparr> in
                   (case f_x st1 of
                      None \<Rightarrow> Raised KeyError st1
                    | Some xa \<Rightarrow>
                        if length (vals xa) \<noteq> length msk then Raised TypeError st1
                        else
                          let x_binarated = select (vals xa) msk in
                          if f_x_binarated st1 \<noteq> None then Raised NameExists st1
                          else
                            let st2 = st1\<lparr>f_x_binarated :=
                                        Some \<lparr>vals = x_binarated, initial_step = None\<rparr>\<rparr> in
                            if length x_binarated < 2 then Raised IndexError st2
                            else Returned (st1\<lparr>f_x_binarated :=
                                   Some \<lparr>vals = x_binarated,
                                         initial_step = Some (x_binarated ! 0,
                                           x_binarated ! 1 - x_binarated ! 0)\<rparr>\<rparr>))))"

subsection \<open>\<open>time_window_cyclicize\<close>: the Taper Builder\<close>

text \<open>\<open>int(math.ceil((1.0*t)/(1.0*dt)))\<close>, where \<open>dt\<close> is a \<open>numpy.float64\<close>: dividing by
  zero gives \<open>inf\<close> or \<open>nan\<close>, which \<open>math.ceil\<close> and \<open>int\<close> refuse.\<close>

definition ceil_points :: "real \<Rightarrow> real \<Rightarrow> exn + int" where
  "ceil_points t dt =
     (if dt = 0 then (if t = 0 then Inl ValueError else Inl OverflowError)
      else Inr \<lceil>t / dt\<rceil>)"

text \<open>\<open>np.blackman(M)\<close>: empty for \<open>M < 1\<close>, \<open>[1.]\<close> for \<open>M = 1\<close>, otherwise
  \<open>0.42 - 0.5 cos(2 pi n/(M-1)) + 0.08 cos(4 pi n/(M-1))\<close> for \<open>n = 0, ..., M-1\<close>.
  At \<open>n = 0\<close> and \<open>n = M-1\<close> both cosines are exactly \<open>1.0\<close> in double arithmetic, and
  the weight is the double \<open>(0.42 - 0.5*1.0) + 0.08*1.0\<close>, which rounding makes negative
  (\<open>-1.3877787807814457e-17\<close>); the weights in between are taken as exact reals.\<close>

definition blackman_end :: real where
  "blackman_end = fl (fl (fl 0.42 - 0.5 * 1) + fl 0.08 * 1)"

definition np_blackman :: "int \<Rightarrow> real list" where
  "np_blackman M =
     (if M < 1 then []
      else if M = 1 then [1]
      else map (\<lambda>n. if n = 0 \<or> int n = M - 1 then blackman_end
                     else 0.42 - 0.5 * cos (2 * pi * real n / real_of_int (M - 1))
                               + 0.08 * cos (4 * pi * real n / real_of_int (M - 1)))
             [0..<nat M])"

text \<open>Python slices \<open>a[0:hi]\<close> and \<open>a[lo:]\<close>: a negative bound counts from the end, and
  bounds are clipped to the array.\<close>

definition slice_bound :: "nat \<Rightarrow> int \<Rightarrow> nat" where
  "slice_bound len i = (if i < 0 then nat (max 0 (int len + i)) else min len (nat i))"

definition slice_to :: "'a list \<Rightarrow> int \<Rightarrow> 'a list" where
  "slice_to a hi = take (slice_bound (length a) hi) a"

definition slice_from :: "'a list \<Rightarrow> int \<Rightarrow> 'a list" where
  "slice_from a lo = drop (slice_bound (length a) lo) a"

text \<open>\<open>np.concatenate([np.blackman(2*ww)[0:ww], np.ones(n-2*ww), np.blackman(2*ww)[-ww:]])\<close>;
  \<open>np.ones\<close> of a negative size raises.\<close>

definition cyclicize_window :: "int \<Rightarrow> int \<Rightarrow> exn + real list" where
  "cyclicize_window ww n =
     (if n - 2 * ww < 0 then Inl ValueError
      else Inr (slice_to (np_blackman (2 * ww)) ww
                @ replicate (nat (n - 2 * ww)) 1
                @ slice_from (np_blackman (2 * ww)) (- ww)))"

definition time_window_cyclicize :: "signal \<Rightarrow> real \<Rightarrow> outcome" where
  "time_window_cyclicize st tw =
     (case (case f_mask_binarate st of
              Some m \<Rightarrow> Inr (int (count_nonzero (bits m)), Abs_x_binarated)
            | None \<Rightarrow> (case f_y st of
                         None \<Rightarrow> Inl KeyError
                       | Some ys \<Rightarrow> Inr (int (length ys), Abs_x))) of
        Inl e \<Rightarrow> Raised e st
      | Inr (n, absc) \<Rightarrow>
          (case f_x st of
             None \<Rightarrow> Raised KeyError st
           | Some xa \<Rightarrow>
               (case initial_step xa of
                  None \<Rightarrow> Raised KeyError st
                | Some (x0, dt) \<Rightarrow>
                    (case ceil_points tw dt of
                       Inl e \<Rightarrow> Raised e st
                     | Inr ww \<Rightarrow>
                         let tw_actual = of_int ww * dt in
                         (case cyclicize_window ww n of
                            Inl e \<Rightarrow> Raised e st
                          | Inr w \<Rightarrow>
                              if f_window_cyclicize st \<noteq> None then Raised NameExists st
                              else Returned (st\<lparr>f_window_cyclicize :=
                                     Some \<lparr>weights = w, w_abscissa = absc, t_window = tw,
                                           t_window_actual = tw_actual\<rparr>\<rparr>))))))"

subsection \<open>\<open>fft\<close>: the Spectral Transform\<close>

text \<open>The product \<open>a*b\<close> of two one-dimensional arrays: element by element when the
  lengths agree, an array of length one is broadcast, anything else raises.\<close>

definition np_mul :: "real list \<Rightarrow> real list \<Rightarrow> real list option" where
  "np_mul a b =
     (if length a = length b then Some (map2 (*) a b)
      else if length a = 1 then Some (map (\<lambda>v. hd a * v) b)
      else if length b = 1 then Some (map (\<lambda>v. v * hd b) a)
      else None)"

text \<open>\<open>np.fft.fftfreq(n, d)\<close>: the integers \<open>0, ..., (n-1) div 2\<close> then
  \<open>-(n div 2), ..., -1\<close>, each times \<open>1/(n d)\<close>.\<close>

definition np_fftfreq :: "nat \<Rightarrow> real \<Rightarrow> real list" where
  "np_fftfreq n d =
     map (\<lambda>k. of_int k * (1 / (of_nat n * d)))
       ([0 .. (int n - 1) div 2] @ [- (int n div 2) .. - 1])"

text \<open>\<open>np.fft.fftshift\<close> rolls the array by \<open>n div 2\<close> places to the right.\<close>

definition np_fftshift :: "'a list \<Rightarrow> 'a list" where
  "np_fftshift a = (let k = length a - length a div 2 in drop k a @ take k a)"

text \<open>\<open>np.fft.fft\<close>: the discrete Fourier transform
  \<open>A[k] = sum_n a[n] exp(-2 pi i k n / m)\<close>.\<close>

definition np_fft :: "real list \<Rightarrow> complex list" where
  "np_fft a =
     map (\<lambda>k. \<Sum>n<length a. of_real (a ! n) * cis (- 2 * pi * real k * real n / real (length a)))
       [0..<length a]"

text \<open>The working array: \<open>y\<close>, restricted by the binarate mask if there is one, then
  multiplied by the cyclicizing window if there is one.\<close>

definition working_array :: "signal \<Rightarrow> exn + real list" where
  "working_array st =
     (case f_y st of
        None \<Rightarrow> Inl KeyError
      | Some ys \<Rightarrow>
          (case (case f_mask_binarate st of
                   None \<Rightarrow> Inr ys
                 | Some m \<Rightarrow> if length (bits m) \<noteq> length ys then Inl IndexError
                             else Inr (select ys (bits m))) of
             Inl e \<Rightarrow> Inl e
           | Inr s1 \<Rightarrow>
               (case f_window_cyclicize st of
                  None \<Rightarrow> Inr s1
                | Some w \<Rightarrow>
                    (case np_mul (weights w) s1 of
                       None \<Rightarrow> Inl ValueError
                     | Some s \<Rightarrow> Inr s))))"

definition fft :: "signal \<Rightarrow> bool \<Rightarrow> outcome" where
  "fft st psd =
     (case working_array st of
        Inl e \<Rightarrow> Raised e st
      | Inr s \<Rightarrow>
          (case f_x st of
             None \<Rightarrow> Raised KeyError st
           | Some xa \<Rightarrow>
               (case initial_step xa of
                  None \<Rightarrow> Raised KeyError st
                | Some (x0, dt) \<Rightarrow>
                    if s = [] then Raised ValueError st
                    else if dt = 0 then NonFinite
                    else
                      let freq0 = np_fftshift (np_fftfreq (length s) dt);
                          keep = map (\<lambda>f. f \<ge> 0) freq0;
                          freq = (if psd then select freq0 keep else freq0);
                          sFT = (if psd
                                 then Power (select
                                        (map (\<lambda>z. (dt / real (length s)) * (cmod z)\<^sup>2)
                                           (np_fftshift (np_fft s))) keep)
                                 else Linear (map (\<lambda>z. of_real dt * z)
                                                (np_fftshift (np_fft s))))
                      in
                      if f_freq st \<noteq> None then Raised NameExists st
                      else
                        let st1 = st\<lparr>f_freq := Some \<lparr>vals = map (\<lambda>f. f / 1000) freq,
                                                      initial_step = None\<rparr>\<rparr> in
                        if length freq < 2 then Raised IndexError st1
                        else
                          let st2 = st\<lparr>f_freq := Some \<lparr>vals = map (\<lambda>f. f / 1000) freq,
                                          initial_step = Some (freq ! 0, freq ! 1 - freq ! 0)\<rparr>\<rparr>
                          in
                          if f_FT st2 \<noteq> None then Raised NameExists st2
                          else Returned (st2\<lparr>f_FT := Some sFT\<rparr>))))"

subsection \<open>\<open>freq_filter_Hilbert_complex\<close> and \<open>freq_filter_bp\<close>: the Analytic Filter Bank\<close>

definition freq_filter_Hilbert_complex :: "signal \<Rightarrow> outcome" where
  "freq_filter_Hilbert_complex st =
     (case f_freq st of
        None \<Rightarrow> Raised KeyError st
      | Some fa \<Rightarrow>
          let filt = map (\<lambda>f. 0 * (if f < 0 then 1 else 0) + 1 * (if f = 0 then 1 else 0)
                               + 2 * (if f > 0 then 1 else 0)) (vals fa)
          in if f_Hc st \<noteq> None then Raised NameExists st
             else Returned (st\<lparr>f_Hc := Some filt\<rparr>))"

text \<open>\<open>np.argmax\<close>: the first index of the largest entry; it raises on an empty array.\<close>

fun argmax_from :: "nat \<Rightarrow> real \<Rightarrow> nat \<Rightarrow> real list \<Rightarrow> nat" where
  "argmax_from best v i [] = best"
| "argmax_from best v i (a # as) =
     (if v < a then argmax_from i a (Suc i) as else argmax_from best v (Suc i) as)"

definition np_argmax :: "real list \<Rightarrow> nat option" where
  "np_argmax a = (case a of [] \<Rightarrow> None | v # as \<Rightarrow> Some (argmax_from 0 v 1 as))"

text \<open>\<open>abs(np.array(self.f['workup/freq/FT'][:]))\<close>.\<close>

fun abs_spectrum :: "spectrum \<Rightarrow> real list" where
  "abs_spectrum (Linear zs) = map cmod zs"
| "abs_spectrum (Power ps) = map abs ps"

text \<open>The brick wall weight \<open>1.0/(1.0+np.power(abs(u),order))\<close> for an integer order.
  With a negative order \<open>np.power(0.0, order)\<close> is \<open>inf\<close>, and the weight is \<open>1/(1+inf) = 0\<close>.\<close>

definition brick_wall :: "int \<Rightarrow> real \<Rightarrow> real" where
  "brick_wall order u =
     (if 0 \<le> order then 1 / (1 + \<bar>u\<bar> ^ nat order)
      else if u = 0 then 0
      else 1 / (1 + 1 / \<bar>u\<bar> ^ nat (- order)))"

definition gaussian :: "real \<Rightarrow> real" where
  "gaussian u = exp (- 1 * u\<^sup>2)"

text \<open>\<open>np.linspace(0, np.pi, k)\<close>.\<close>

definition linspace_pi :: "nat \<Rightarrow> real list" where
  "linspace_pi k =
     (if k = 1 then [0] else map (\<lambda>i. real i * (pi / real (k - 1))) [0..<k])"

text \<open>\<open>bp = np.zeros(...); bp[sub_indices] = values\<close>: the values go, in order, to the
  places where \<open>sub_index\<close> is true; the other entries stay zero.\<close>

fun scatter :: "bool list \<Rightarrow> real list \<Rightarrow> real list" where
  "scatter [] vs = []"
| "scatter (False # bs) vs = 0 # scatter bs vs"
| "scatter (True # bs) (v # vs) = v # scatter bs vs"
| "scatter (True # bs) [] = 0 # scatter bs []"

definition cosine_bp :: "real list \<Rightarrow> real \<Rightarrow> real \<Rightarrow> real list" where
  "cosine_bp freq fc bw =
     (let sub_index = map (\<lambda>f. f \<ge> - 1 * bw + fc \<and> f \<le> bw + fc) freq
      in scatter sub_index (map sin (linspace_pi (count_nonzero sub_index))))"

text \<open>The \<open>if\<close>/\<open>elif\<close> chain on \<open>style\<close>. \<open>None\<close>: no branch assigned \<open>bp\<close>.
  \<open>Inl ()\<close>: the array holds \<open>inf\<close> or \<open>nan\<close> (division by \<open>bw = 0\<close>).\<close>

definition bp_shape :: "string \<Rightarrow> int \<Rightarrow> real list \<Rightarrow> real \<Rightarrow> real \<Rightarrow> (unit + real list) option"
  where
  "bp_shape style order freq fc bw =
     (let freq_scaled = map (\<lambda>f. (f - fc) / bw) freq in
      if style = ''brick wall'' then
        (if bw = 0 then Some (Inl ()) else Some (Inr (map (brick_wall order) freq_scaled)))
      else if style = ''cosine'' then Some (Inr (cosine_bp freq fc bw))
      else if style = ''gaussian'' then
        (if bw = 0 then Some (Inl ()) else Some (Inr (map gaussian freq_scaled)))
      else None)"

definition freq_filter_bp :: "signal \<Rightarrow> real \<Rightarrow> int \<Rightarrow> string \<Rightarrow> outcome" where
  "freq_filter_bp st bw order style =
     (case f_freq st of
        None \<Rightarrow> Raised KeyError st
      | Some fa \<Rightarrow>
          (case f_Hc st of
             None \<Rightarrow> Raised KeyError st
           | Some Hc \<Rightarrow>
               (case f_FT st of
                  None \<Rightarrow> Raised KeyError st
                | Some FT \<Rightarrow>
                    (case np_mul Hc (abs_spectrum FT) of
                       None \<Rightarrow> Raised ValueError st
                     | Some FTrh \<Rightarrow>
                         (case np_argmax FTrh of
                            None \<Rightarrow> Raised ValueError st
                          | Some i \<Rightarrow>
                              if length (vals fa) \<le> i then Raised IndexError st
                              else
                                let fc = vals fa ! i in
                                (case bp_shape style order (vals fa) fc bw of
                                   None \<Rightarrow>
                                     Raised UnboundLocalError
                                       (st\<lparr>stdout := stdout st
                                            @ [''**ERROR**: Unrecognized filter function'']\<rparr>)
                                 | Some (Inl u) \<Rightarrow> NonFinite
                                 | Some (Inr bp) \<Rightarrow>
                                     if f_bp st \<noteq> None then Raised NameExists st
                                     else
                                       let st1 = st\<lparr>f_bp := Some bp\<rparr> in
                                       (case np_mul Hc bp of
                                          None \<Rightarrow> Raised ValueError st1
                                        | Some Hb \<Rightarrow>
                                            (case np_mul Hb (abs_spectrum FT) of
                                               None \<Rightarrow> Raised ValueError st1
                                             | Some FT_filt \<Rightarrow> Returned st1))))))))"

subsection \<open>\<open>time_mask_rippleless\<close>: the Edge Trimmer\<close>

definition time_mask_rippleless :: "signal \<Rightarrow> real \<Rightarrow> outcome" where
  "time_mask_rippleless st td =
     (case f_x st of
        None \<Rightarrow> Raised KeyError st
      | Some xa \<Rightarrow>
          (case initial_step xa of
             None \<Rightarrow> Raised KeyError st
           | Some (x0, dt) \<Rightarrow>
               (case ceil_points td dt of
                  Inl e \<Rightarrow> Raised e st
                | Inr ww \<Rightarrow>
                    (case (case f_mask_binarate st of
                             Some m \<Rightarrow> (case f_x_binarated st of
                                          None \<Rightarrow> None
                                        | Some xb \<Rightarrow> Some (vals xb, Abs_x_binarated))
                           | None \<Rightarrow> Some (vals xa, Abs_x)) of
                       None \<Rightarrow> Raised KeyError st
                     | Some (x, absc) \<Rightarrow>
                         let n = int (length x);
                             msk = map (\<lambda>i. i \<ge> ww \<and> i < n - ww) (arange (length x));
                             x_rippleless = select x msk
                         in
                         if f_mask_rippleless st \<noteq> None then Raised NameExists st
                         else
                           let st1 = st\<lparr>f_mask_rippleless :=
                                       Some \<lparr>bits = msk, m_abscissa = absc\<rparr>\<rparr> in
                           if f_x_rippleless st1 \<noteq> None then Raised NameExists st1
                           else
                             let st2 = st1\<lparr>f_x_rippleless :=
                                         Some \<lparr>vals = x_rippleless, initial_step = None\<rparr>\<rparr> in
                             if length x_rippleless < 2 then Raised IndexError st2
                             else Returned (st1\<lparr>f_x_rippleless :=
                                    Some \<lparr>vals = x_rippleless,
                                          initial_step = Some (x_rippleless ! 0,
                                            x_rippleless ! 1 - x_rippleless ! 0)\<rparr>\<rparr>)))))"

subsection \<open>\<open>fit_phase\<close>: the Chunked Frequency Estimator\<close>

text \<open>\<open>int\<close> of a float: truncation towards zero.\<close>

definition py_int :: "real \<Rightarrow> int" where
  "py_int v = (if 0 \<le> v then \<lfloor>v\<rfloor> else \<lceil>v\<rceil>)"

text \<open>\<open>a.reshape((rows, cols))\<close> of the first \<open>rows*cols\<close> entries, as a list of rows.\<close>

definition reshape :: "nat \<Rightarrow> nat \<Rightarrow> 'a list \<Rightarrow> 'a list list" where
  "reshape rows cols a = map (\<lambda>c. take cols (drop (c * cols) a)) [0..<rows]"

text \<open>\<open>a_sub - a_sub[:,:,np.newaxis][:,0,:]*np.ones(n_per_chunk)\<close>: each row minus its
  first entry.\<close>

definition reset_rows :: "real list list \<Rightarrow> real list list" where
  "reset_rows rows = map (\<lambda>r. map (\<lambda>v. v - hd r) r) rows"

text \<open>The best-fit slope of each chunk, from the closed-form sums over the time axis and
  the sums over the data.\<close>

definition SX :: "real \<Rightarrow> int \<Rightarrow> real" where
  "SX dt n_per_chunk = dt * 0.50 * of_int (n_per_chunk - 1) * of_int n_per_chunk"

definition SXX :: "real \<Rightarrow> int \<Rightarrow> real" where
  "SXX dt n_per_chunk =
     dt\<^sup>2 * (1 / 6.0) * of_int n_per_chunk * of_int (n_per_chunk - 1) * of_int (2 * n_per_chunk - 1)"

definition chunk_slope :: "real \<Rightarrow> int \<Rightarrow> real list \<Rightarrow> real list \<Rightarrow> real" where
  "chunk_slope dt n_per_chunk x_reset y_reset =
     (let SY = sum_list y_reset;
          SXY = sum_list (map2 (*) x_reset y_reset)
      in (of_int n_per_chunk * SXY - SX dt n_per_chunk * SY)
         / (of_int n_per_chunk * SXX dt n_per_chunk - SX dt n_per_chunk * SX dt n_per_chunk))"

definition axis_of :: "signal \<Rightarrow> abscissa \<Rightarrow> axis option" where
  "axis_of st a =
     (case a of Abs_x \<Rightarrow> f_x st | Abs_x_binarated \<Rightarrow> f_x_binarated st
      | Abs_x_rippleless \<Rightarrow> f_x_rippleless st)"

definition fit_phase :: "signal \<Rightarrow> real \<Rightarrow> outcome" where
  "fit_phase st dt_chunk_target =
     (case f_x st of
        None \<Rightarrow> Raised KeyError st
      | Some xa \<Rightarrow>
          (case initial_step xa of
             None \<Rightarrow> Raised KeyError st
           | Some (x0, dt) \<Rightarrow>
               (case f_p st of
                  None \<Rightarrow> Raised KeyError st
                | Some ph \<Rightarrow>
                    let n = int (length (cycles ph)) in
                    if dt = 0 then
                      (if dt_chunk_target = 0 then Raised ValueError st
                       else Raised OverflowError st)
                    else
                      let n_per_chunk = py_round (dt_chunk_target / dt) in
                      if n_per_chunk = 0 then Raised ZeroDivisionError st
                      else
                        let n_tot_chunk = py_int (of_int n / of_int n_per_chunk);
                            n_total = n_per_chunk * n_tot_chunk
                        in
                        if n_per_chunk < 0 then Raised ValueError st
                        else
                          let y = take (nat n_total) (cycles ph);
                              y_sub = reshape (nat n_tot_chunk) (nat n_per_chunk) y;
                              y_sub_reset = reset_rows y_sub
                          in
                          (case axis_of st (p_abscissa ph) of
                             None \<Rightarrow> Raised KeyError st
                           | Some ta \<Rightarrow>
                               let x = take (nat n_total) (vals ta) in
                               if length x \<noteq> nat n_total then Raised ValueError st
                               else
                                 let x_sub = reshape (nat n_tot_chunk) (nat n_per_chunk) x;
                                     x_sub_reset = reset_rows x_sub
                                 in
                                 if n_per_chunk = 1 \<and> 0 < n_tot_chunk then NonFinite
                                 else
                                   let slope = map2 (chunk_slope dt n_per_chunk)
                                                 x_sub_reset y_sub_reset;
                                       x_sub_middle = map (\<lambda>r. sum_list r / real (length r)) x_sub
                                   in
                                   if f_fit_x st \<noteq> None then Raised NameExists st
                                   else
                                     let st1 = st\<lparr>f_fit_x := Some x_sub_middle\<rparr> in
                                     if f_fit_y st1 \<noteq> None then Raised NameExists st1
                                     else Returned (st1\<lparr>f_fit_y := Some slope\<rparr>)))))"

subsection \<open>Ordinary least squares, as the specification names it\<close>

text \<open>The reference for the Chunked Frequency Estimator: the slope and intercept of the
  ordinary least-squares line through the points \<open>(xs[i], ys[i])\<close>, from the general sums
  over the data as given (no closed forms, no shift of origin), and the sum of squared
  residuals that the line minimises.\<close>

definition ols_slope :: "real list \<Rightarrow> real list \<Rightarrow> real" where
  "ols_slope xs ys =
     (let n = real (length xs);
          Sx = sum_list xs;
          Sy = sum_list ys;
          Sxx = sum_list (map (\<lambda>v. v * v) xs);
          Sxy = sum_list (map2 (*) xs ys)
      in (n * Sxy - Sx * Sy) / (n * Sxx - Sx * Sx))"

definition ols_intercept :: "real list \<Rightarrow> real list \<Rightarrow> real" where
  "ols_intercept xs ys = (sum_list ys - ols_slope xs ys * sum_list xs) / real (length xs)"

definition squared_error :: "real \<Rightarrow> real \<Rightarrow> real list \<Rightarrow> real list \<Rightarrow> real" where
  "squared_error a b xs ys = sum_list (map2 (\<lambda>u v. (v - (a * u + b))\<^sup>2) xs ys)"

subsection \<open>Example files\<close>

text \<open>The file after \<open>load_nparray([1, 2, 3, 4], ..., dt = 1)\<close> on a new \<open>Signal\<close>.\<close>

definition ramp4 :: signal where
  "ramp4 = empty_signal\<lparr>f_x := Some \<lparr>vals = [0, 1, 2, 3], initial_step = Some (0, 1)\<rparr>,
                          f_y := Some [1, 2, 3, 4]\<rparr>"

text \<open>The file after \<open>load_nparray([1, 1], ..., dt = 1)\<close>.\<close>

definition pair2 :: signal where
  "pair2 = empty_signal\<lparr>f_x := Some \<lparr>vals = [0, 1], initial_step = Some (0, 1)\<rparr>,
                          f_y := Some [1, 1]\<rparr>"

text \<open>The file after \<open>load_nparray([1], ..., dt = 1)\<close>.\<close>

definition one1 :: signal where
  "one1 = empty_signal\<lparr>f_x := Some \<lparr>vals = [0], initial_step = Some (0, 1)\<rparr>,
                         f_y := Some [1]\<rparr>"

text \<open>A file with a phase trace on the axis \<open>x\<close> (\<open>dt = 1\<close>): six samples of \<open>t\<^sup>2\<close> cycles.\<close>

definition quad6 :: signal where
  "quad6 = empty_signal\<lparr>f_x := Some \<lparr>vals = [0, 1, 2, 3, 4, 5], initial_step = Some (0, 1)\<rparr>,
                          f_y := Some [0, 0, 0, 0, 0, 0],
                          f_p := Some \<lparr>cycles = [0, 1, 4, 9, 16, 25], p_abscissa = Abs_x\<rparr>\<rparr>"

text \<open>A file with a three-point frequency axis in kHz, a Hilbert filter on it and a power
  spectrum that peaks at 1 kHz.\<close>

definition peak3 :: signal where
  "peak3 = empty_signal\<lparr>f_freq := Some \<lparr>vals = [0, 1, 2], initial_step = Some (0, 1000)\<rparr>,
                          f_FT := Some (Power [0, 5, 1]),
                          f_Hc := Some [1, 2, 2]\<rparr>"

section \<open>Properties\<close>

subsection \<open>The Length Normalizer's mask\<close>

lemma interval_mask:
  assumes "a \<le> b" "b \<le> n"
  shows "map (\<lambda>i. int a \<le> i \<and> i < int b) (arange n) =
         replicate a False @ replicate (b - a) True @ replicate (n - b) False"
  using assms by (intro nth_equalityI) (auto simp: arange_def nth_append)

lemma pow2_floor_log2_le:
  assumes "0 < n"
  shows "(2::nat) ^ nat \<lfloor>log 2 (real n)\<rfloor> \<le> n"
  using floorlog_bounds[of n 2] assms by (simp add: floorlog_def)

lemma floor_log2_floorlog:
  assumes "0 < n"
  shows "nat \<lfloor>log 2 (real n)\<rfloor> = floorlog 2 n - 1"
  using assms by (simp add: floorlog_def)

lemma floor_half: "\<lfloor>real_of_int k / 2\<rfloor> = k div 2"
  using floor_divide_of_int_eq[of k 2, where ?'a = real] by simp

lemma binarate_bounds_nat:
  assumes "n2 \<le> n" and "mode \<in> {''start'', ''middle'', ''end''}"
    and "s = (if mode = ''start'' then 0 else if mode = ''middle'' then (n - n2) div 2 else n - n2)"
  shows "binarate_bounds mode (int n) (int n2) = Some (int s, int (s + n2))"
proof -
  have "\<lfloor>real_of_int (int n - int n2) / 2\<rfloor> = int ((n - n2) div 2)"
    using assms(1) by (simp add: floor_half of_nat_diff zdiv_int del: of_int_diff)
  then show ?thesis
    using assms by (auto simp: binarate_bounds_def Let_def simp del: of_int_diff)
qed

text \<open>
  C2. For a signal of \<open>n \<ge> 1\<close> samples and a mode among start, middle and end,
  \<open>time_mask_binarate\<close> stores a mask of length \<open>n\<close> that is true on exactly the
  \<open>n2 = 2 ^ \<lfloor>log2 n\<rfloor>\<close> consecutive indices from \<open>n_start\<close> on and false elsewhere, where
  \<open>n_start\<close> is \<open>0\<close> (start), \<open>(n - n2) div 2\<close> (middle) or \<open>n - n2\<close> (end). The mask is
  in the file whether the method then returns or raises while it writes \<open>x_binarated\<close>.
\<close>

theorem binarate_mask_shape:
  assumes y: "f_y st = Some ys" and ne: "1 \<le> n"
    and mode: "mode \<in> {''start'', ''middle'', ''end''}"
    and fresh: "f_mask_binarate st = None"
    and n: "n = length ys" and n2: "n2 = 2 ^ nat \<lfloor>log 2 (real n)\<rfloor>"
    and s: "n_start = (if mode = ''start'' then 0
                       else if mode = ''middle'' then (n - n2) div 2 else n - n2)"
  shows "\<exists>st'. file_after (time_mask_binarate st mode) = Some st' \<and>
           map_option bits (f_mask_binarate st') =
             Some (replicate n_start False @ replicate n2 True
                   @ replicate (n - n_start - n2) False) \<and>
           n_start + n2 \<le> n \<and>
           length (replicate n_start False @ replicate n2 True
                   @ replicate (n - n_start - n2) False) = n"
proof -
  have pos: "0 < n" using ne by simp
  have le: "n2 \<le> n" using pow2_floor_log2_le[OF pos] n2 by simp
  have le2: "n_start + n2 \<le> n" using le s by auto
  have pw: "(2::int) ^ nat (floor_log2 (int n)) = int n2"
    using pos by (simp add: floor_log2_def n2)
  have msk: "map (\<lambda>i. int n_start \<le> i \<and> i < int (n_start + n2)) (arange n) =
       replicate n_start False @ replicate n2 True @ replicate (n - n_start - n2) False"
    using interval_mask[of n_start "n_start + n2" n] le2 by simp
  have "\<exists>st'. file_after (time_mask_binarate st mode) = Some st' \<and>
           map_option bits (f_mask_binarate st') =
             Some (replicate n_start False @ replicate n2 True
                   @ replicate (n - n_start - n2) False)"
    using pos msk
    by (simp add: time_mask_binarate_def y n[symmetric] pw binarate_bounds_nat[OF le mode s]
        fresh Let_def split: option.split)
  then show ?thesis using le2 by auto
qed

theorem binarate_mask_shape_witness:
  "\<exists>st'. file_after (time_mask_binarate
            (empty_signal\<lparr>f_x := Some \<lparr>vals = [0, 1, 2, 3, 4, 5, 6], initial_step = Some (0, 1)\<rparr>,
                           f_y := Some [3, 1, 4, 1, 5, 9, 2]\<rparr>) ''middle'') = Some st' \<and>
         map_option bits (f_mask_binarate st') =
           Some [False, True, True, True, True, False, False]"
proof -
  have "floorlog 2 7 = 3" by code_simp
  then have n2: "(4::nat) = 2 ^ nat \<lfloor>log 2 (real 7)\<rfloor>"
    using floor_log2_floorlog[of 7] by simp
  have s: "(1::nat) = (if ''middle'' = ''start'' then 0
                       else if ''middle'' = ''middle'' then (7 - 4) div 2 else 7 - 4)"
    by simp
  have r: "replicate 1 False @ replicate 4 True @ replicate (7 - 1 - 4) False =
           [False, True, True, True, True, False, False]"
    by (simp add: eval_nat_numeral)
  show ?thesis
    using binarate_mask_shape[of
        "empty_signal\<lparr>f_x := Some \<lparr>vals = [0, 1, 2, 3, 4, 5, 6], initial_step = Some (0, 1)\<rparr>,
                       f_y := Some [3, 1, 4, 1, 5, 9, 2]\<rparr>"
        "[3, 1, 4, 1, 5, 9, 2]" 7 "''middle''" 4 1, OF _ _ _ _ _ n2 s]
    unfolding r by (simp add: empty_signal_def)
qed

subsection \<open>The Taper Builder's window\<close>

lemma length_np_blackman: "length (np_blackman M) = nat M"
  by (simp add: np_blackman_def)

lemma fl_binade:
  assumes "2 powr (of_int e) \<le> \<bar>v\<bar>" "\<bar>v\<bar> < 2 powr (of_int e + 1)"
    and "u = 2 powr (of_int e - 52)"
  shows "fl v = of_int (py_round (v / u)) * u"
proof -
  have pos: "0 < \<bar>v\<bar>" using assms(1) by (smt (verit) powr_gt_zero)
  then have "\<lfloor>log 2 \<bar>v\<bar>\<rfloor> = e"
    using assms by (simp add: floor_log_eq_powr_iff)
  then show ?thesis using pos assms(3) by (simp add: fl_def Let_def)
qed

lemma fl_042: "fl 0.42 = 7566047373982433 / 2 ^ 54"
proof -
  have "fl 0.42 = of_int (py_round (0.42 / (1 / 2 ^ 54))) * (1 / 2 ^ 54)"
    by (rule fl_binade[of "- 2"]) (simp_all add: powr_minus powr_numeral divide_simps)
  moreover have "py_round (0.42 / (1 / 2 ^ 54)) = 7566047373982433"
    by (simp add: py_round_def Let_def)
  ultimately show ?thesis by simp
qed

lemma fl_008: "fl 0.08 = 5764607523034235 / 2 ^ 56"
proof -
  have "fl 0.08 = of_int (py_round (0.08 / (1 / 2 ^ 56))) * (1 / 2 ^ 56)"
    by (rule fl_binade[of "- 4"]) (simp_all add: powr_minus powr_numeral divide_simps)
  moreover have "py_round (0.08 / (1 / 2 ^ 56)) = 5764607523034235"
    by (simp add: py_round_def Let_def)
  ultimately show ?thesis by simp
qed

lemma fl_diff: "fl (7566047373982433 / 2 ^ 54 - 0.5 * 1) = - 5764607523034236 / 2 ^ 56"
proof -
  have v: "(7566047373982433 / 2 ^ 54 - 0.5 * 1 :: real) = - 5764607523034236 / 2 ^ 56"
    by simp
  have "fl (- 5764607523034236 / 2 ^ 56) =
        of_int (py_round ((- 5764607523034236 / 2 ^ 56) / (1 / 2 ^ 56))) * (1 / 2 ^ 56)"
    by (rule fl_binade[of "- 4"]) (simp_all add: powr_minus powr_numeral divide_simps)
  moreover have "py_round ((- 5764607523034236 / 2 ^ 56) / (1 / 2 ^ 56)) = - 5764607523034236"
    by (simp add: py_round_def Let_def)
  ultimately show ?thesis unfolding v by simp
qed

lemma fl_sum: "fl (- 5764607523034236 / 2 ^ 56 + 5764607523034235 / 2 ^ 56 * 1) = - 1 / 2 ^ 56"
proof -
  have v: "(- 5764607523034236 / 2 ^ 56 + 5764607523034235 / 2 ^ 56 * 1 :: real) = - 1 / 2 ^ 56"
    by simp
  have "fl (- 1 / 2 ^ 56) = of_int (py_round ((- 1 / 2 ^ 56) / (1 / 2 ^ 108))) * (1 / 2 ^ 108)"
    by (rule fl_binade[of "- 56"]) (simp_all add: powr_minus powr_numeral divide_simps)
  moreover have "py_round ((- 1 / 2 ^ 56) / (1 / 2 ^ 108)) = - (2 ^ 52)"
    by (simp add: py_round_def Let_def)
  ultimately show ?thesis unfolding v by simp
qed

lemma blackman_end_value: "blackman_end = - 1 / 2 ^ 56"
  unfolding blackman_end_def fl_042 fl_008 fl_diff fl_sum ..






lemma cyclicize_window_eq:
  assumes "0 \<le> ww" "2 * ww \<le> n"
  shows "cyclicize_window ww n =
           Inr (take (nat ww) (np_blackman (2 * ww)) @ replicate (nat (n - 2 * ww)) 1
                @ drop (nat ww) (np_blackman (2 * ww)))"
  using assms
  by (auto simp: cyclicize_window_def slice_to_def slice_from_def slice_bound_def
      length_np_blackman np_blackman_def)


lemma working_length_cases:
  assumes "f_mask_binarate st = Some mk \<and> m = count_nonzero (bits mk) \<or>
           f_mask_binarate st = None \<and> f_y st = Some ys \<and> m = length ys"
  shows "(case f_mask_binarate st of
            Some m \<Rightarrow> Inr (int (count_nonzero (bits m)), Abs_x_binarated)
          | None \<Rightarrow> (case f_y st of None \<Rightarrow> Inl KeyError
                       | Some ys \<Rightarrow> Inr (int (length ys), Abs_x))) =
         Inr (int m, if f_mask_binarate st = None then Abs_x else Abs_x_binarated)"
  using assms by auto

text \<open>
  C5, as the code has it. With \<open>ww = \<lceil>tw/dt\<rceil>\<close> and working length \<open>m\<close> (the number of
  true entries of the binarate mask, or the length of \<open>y\<close> when there is no mask):
  when \<open>2 ww > m\<close> the method raises (\<open>np.ones\<close> of a negative size) and stores nothing;
  when \<open>2 ww = m\<close> it returns, and the window is \<open>np.blackman(m)\<close> with no plateau.
\<close>

theorem taper_fails_iff_wider:
  assumes x: "f_x st = Some xa" "initial_step xa = Some (x0, dt)" and dt: "dt \<noteq> 0"
    and m: "f_mask_binarate st = Some mk \<and> m = count_nonzero (bits mk) \<or>
            f_mask_binarate st = None \<and> f_y st = Some ys \<and> m = length ys"
    and fresh: "f_window_cyclicize st = None"
  shows "(int m < 2 * \<lceil>tw / dt\<rceil> \<longrightarrow> time_window_cyclicize st tw = Raised ValueError st) \<and>
         (int m = 2 * \<lceil>tw / dt\<rceil> \<longrightarrow>
            (\<exists>st'. time_window_cyclicize st tw = Returned st' \<and>
                   map_option weights (f_window_cyclicize st') = Some (np_blackman (int m))))"
proof (intro conjI impI)
  assume "int m < 2 * \<lceil>tw / dt\<rceil>"
  then have "cyclicize_window \<lceil>tw / dt\<rceil> (int m) = Inl ValueError"
    by (simp add: cyclicize_window_def)
  then show "time_window_cyclicize st tw = Raised ValueError st"
    using dt by (simp add: time_window_cyclicize_def working_length_cases[OF m] x ceil_points_def)
next
  assume e: "int m = 2 * \<lceil>tw / dt\<rceil>"
  then have "cyclicize_window \<lceil>tw / dt\<rceil> (int m) =
      Inr (take (nat \<lceil>tw / dt\<rceil>) (np_blackman (int m)) @ drop (nat \<lceil>tw / dt\<rceil>) (np_blackman (int m)))"
  proof -
    have "0 \<le> \<lceil>tw / dt\<rceil>" using e by linarith
    then show ?thesis
      using cyclicize_window_eq[of "\<lceil>tw / dt\<rceil>" "int m"] e by simp
  qed
  then show "\<exists>st'. time_window_cyclicize st tw = Returned st' \<and>
                   map_option weights (f_window_cyclicize st') = Some (np_blackman (int m))"
    using dt fresh
    by (simp add: time_window_cyclicize_def working_length_cases[OF m] x ceil_points_def)
qed

lemma load_ramp4: "load_nparray empty_signal [1, 2, 3, 4] 1 = Returned ramp4"
  by (simp add: load_nparray_def empty_signal_def ramp4_def arange_def upt_rec_numeral)

lemma cos_4pi_3: "cos (4 * pi / 3) = - 1 / 2"
proof -
  have "cos (4 * pi / 3) = cos (2 * (2 * pi / 3))" by simp
  also have "\<dots> = - 1 / 2" unfolding cos_double_cos cos_120 by (simp add: power2_eq_square)
  finally show ?thesis .
qed

lemma cos_8pi_3: "cos (8 * pi / 3) = - 1 / 2"
proof -
  have "cos (8 * pi / 3) = cos (2 * pi / 3 + 2 * pi)" by (simp add: field_simps)
  then show ?thesis by (simp only: cos_periodic cos_120)
qed

lemma upt_0_4: "[0..<4] = [0, 1, 2, 3]"
  by code_simp


lemma np_blackman_4: "np_blackman 4 = [- 1 / 2 ^ 56, 63 / 100, 63 / 100, - 1 / 2 ^ 56]"
  by (simp add: np_blackman_def blackman_end_value upt_0_4 cos_120 cos_4pi_3 cos_8pi_3)


theorem taper_plateau_free_counterexample:
  "2 * \<lceil>(2::real) / 1\<rceil> \<ge> int (length [1, 2, 3, 4 :: real]) \<and>
   time_window_cyclicize ramp4 2 =
     Returned (ramp4\<lparr>f_window_cyclicize :=
       Some \<lparr>weights = [- 1 / 2 ^ 56, 63 / 100, 63 / 100, - 1 / 2 ^ 56], w_abscissa = Abs_x,
             t_window = 2, t_window_actual = 2\<rparr>\<rparr>)"
  by (simp add: time_window_cyclicize_def ramp4_def empty_signal_def ceil_points_def
      cyclicize_window_def np_blackman_4 slice_to_def slice_from_def slice_bound_def)

theorem taper_fails_iff_wider_witness:
  "time_window_cyclicize ramp4 3 = Raised ValueError ramp4 \<and>
   (\<exists>st'. time_window_cyclicize ramp4 2 = Returned st' \<and>
          map_option weights (f_window_cyclicize st') =
            Some [- 1 / 2 ^ 56, 63 / 100, 63 / 100, - 1 / 2 ^ 56])"
proof -
  have x: "f_x ramp4 = Some \<lparr>vals = [0, 1, 2, 3], initial_step = Some (0, 1)\<rparr>"
    and i: "initial_step \<lparr>vals = [0, 1, 2, 3], initial_step = Some (0, 1)\<rparr> = Some (0, 1)"
    and m: "f_mask_binarate ramp4 = Some \<lparr>bits = [], m_abscissa = Abs_x\<rparr> \<and>
              4 = count_nonzero (bits \<lparr>bits = [], m_abscissa = Abs_x\<rparr>) \<or>
            f_mask_binarate ramp4 = None \<and> f_y ramp4 = Some [1, 2, 3, 4] \<and>
              4 = length [1, 2, 3, 4 :: real]"
    and fresh: "f_window_cyclicize ramp4 = None"
    by (simp_all add: ramp4_def empty_signal_def)
  have d: "(1::real) \<noteq> 0" by simp
  show ?thesis
    using taper_fails_iff_wider[OF x i d m fresh, of 3]
          taper_fails_iff_wider[OF x i d m fresh, of 2]
    by (simp add: np_blackman_4)
qed




subsection \<open>The Edge Trimmer with a dead time that leaves nothing\<close>

lemma trim_mask_all_false:
  assumes "int n \<le> 2 * ww"
  shows "map (\<lambda>i. i \<ge> ww \<and> i < int n - ww) (arange n) = replicate n False"
  using assms by (intro nth_equalityI) (auto simp: arange_def)

lemma select_all_false: "select a (replicate (length a) False) = []"
  by (auto simp: select_def filter_empty_conv dest: set_zip_rightD)

text \<open>
  C8, as the code has it. When \<open>2 \<lceil>td/dt\<rceil> \<ge> n_axis\<close> the Edge Trimmer raises
  \<open>IndexError\<close> (it reads the first entry of the empty trimmed axis for the attribute
  \<open>initial\<close>), but only after it has stored an all-false trim mask and an empty trimmed
  time axis; the file is otherwise as it was.
\<close>

theorem trimmer_fails_after_storing:
  assumes x: "f_x st = Some xa" "initial_step xa = Some (x0, dt)" and dt: "dt \<noteq> 0"
    and ax: "f_mask_binarate st = None \<and> t = vals xa \<and> a = Abs_x \<or>
             f_mask_binarate st = Some mk \<and> f_x_binarated st = Some xb \<and> t = vals xb
               \<and> a = Abs_x_binarated"
    and fresh: "f_mask_rippleless st = None" "f_x_rippleless st = None"
    and wide: "2 * \<lceil>td / dt\<rceil> \<ge> int (length t)"
  shows "time_mask_rippleless st td =
           Raised IndexError
             (st\<lparr>f_mask_rippleless := Some \<lparr>bits = replicate (length t) False, m_abscissa = a\<rparr>,
                 f_x_rippleless := Some \<lparr>vals = [], initial_step = None\<rparr>\<rparr>)"
proof -
  have sel: "(case f_mask_binarate st of
               Some m \<Rightarrow> (case f_x_binarated st of None \<Rightarrow> None
                           | Some xb \<Rightarrow> Some (vals xb, Abs_x_binarated))
             | None \<Rightarrow> Some (vals xa, Abs_x)) = Some (t, a)"
    using ax by auto
  show ?thesis
    using dt wide
    by (simp add: time_mask_rippleless_def x ceil_points_def sel fresh
        trim_mask_all_false select_all_false)
qed

theorem trimmer_stores_then_fails_counterexample:
  "2 * \<lceil>(2::real) / 1\<rceil> \<ge> int (length [0, 1, 2, 3 :: real]) \<and>
   time_mask_rippleless ramp4 2 =
     Raised IndexError
       (ramp4\<lparr>f_mask_rippleless := Some \<lparr>bits = [False, False, False, False], m_abscissa = Abs_x\<rparr>,
              f_x_rippleless := Some \<lparr>vals = [], initial_step = None\<rparr>\<rparr>)"
  by (simp add: time_mask_rippleless_def ramp4_def empty_signal_def ceil_points_def
      arange_def select_def eval_nat_numeral)

theorem trimmer_fails_after_storing_witness:
  "2 * \<lceil>(3::real) / 1\<rceil> \<ge> int (length [0, 1, 2, 3, 4, 5 :: real]) \<and>
   time_mask_rippleless quad6 3 =
     Raised IndexError
       (quad6\<lparr>f_mask_rippleless :=
                Some \<lparr>bits = [False, False, False, False, False, False], m_abscissa = Abs_x\<rparr>,
              f_x_rippleless := Some \<lparr>vals = [], initial_step = None\<rparr>\<rparr>)"
proof -
  have x: "f_x quad6 = Some \<lparr>vals = [0, 1, 2, 3, 4, 5], initial_step = Some (0, 1)\<rparr>"
    and i: "initial_step \<lparr>vals = [0, 1, 2, 3, 4, 5], initial_step = Some (0, 1)\<rparr> = Some (0, 1)"
    and ax: "f_mask_binarate quad6 = None \<and>
               [0, 1, 2, 3, 4, 5] = vals \<lparr>vals = [0, 1, 2, 3, 4, 5], initial_step = Some (0, 1)\<rparr> \<and>
               Abs_x = Abs_x \<or>
             f_mask_binarate quad6 = Some \<lparr>bits = [], m_abscissa = Abs_x\<rparr> \<and>
               f_x_binarated quad6 = Some \<lparr>vals = [], initial_step = None\<rparr> \<and>
               [0, 1, 2, 3, 4, 5] = vals \<lparr>vals = [], initial_step = None\<rparr> \<and>
               Abs_x = Abs_x_binarated"
    and fresh: "f_mask_rippleless quad6 = None" "f_x_rippleless quad6 = None"
    by (simp_all add: quad6_def empty_signal_def)
  have d: "(1::real) \<noteq> 0" by simp
  have w: "2 * \<lceil>(3::real) / 1\<rceil> \<ge> int (length [0, 1, 2, 3, 4, 5 :: real])" by simp
  have r: "replicate (length [0, 1, 2, 3, 4, 5 :: real]) False =
           [False, False, False, False, False, False]"
    by (simp add: eval_nat_numeral)
  show ?thesis
    using trimmer_fails_after_storing[OF x i d ax fresh w] w unfolding r by simp
qed

subsection \<open>The Chunked Frequency Estimator with a chunk of no points\<close>

text \<open>
  C10. When the file holds the time step \<open>dt\<close> (not zero) and the phase, and
  \<open>round(dt_chunk_target/dt) = 0\<close>, then \<open>fit_phase\<close> raises \<open>ZeroDivisionError\<close>
  (at \<open>int(n/n_per_chunk)\<close>) and the file is as it was: neither \<open>workup/fit/x\<close> nor
  \<open>workup/fit/y\<close> has been created.
\<close>

theorem fit_phase_zero_chunk:
  assumes x: "f_x st = Some xa" "initial_step xa = Some (x0, dt)" and dt: "dt \<noteq> 0"
    and p: "f_p st = Some ph"
    and z: "py_round (dt_chunk_target / dt) = 0"
  shows "fit_phase st dt_chunk_target = Raised ZeroDivisionError st"
  using dt z by (simp add: fit_phase_def x p)

theorem fit_phase_zero_chunk_witness:
  "py_round ((1 / 4) / 1) = 0 \<and> fit_phase quad6 (1 / 4) = Raised ZeroDivisionError quad6"
proof -
  have x: "f_x quad6 = Some \<lparr>vals = [0, 1, 2, 3, 4, 5], initial_step = Some (0, 1)\<rparr>"
    and i: "initial_step \<lparr>vals = [0, 1, 2, 3, 4, 5], initial_step = Some (0, 1)\<rparr> = Some (0, 1)"
    and p: "f_p quad6 = Some \<lparr>cycles = [0, 1, 4, 9, 16, 25], p_abscissa = Abs_x\<rparr>"
    by (simp_all add: quad6_def empty_signal_def)
  have d: "(1::real) \<noteq> 0" by simp
  have "\<lfloor>1 / 4 :: real\<rfloor> = 0" by (rule floor_unique) simp_all
  then have z: "py_round ((1 / 4) / 1) = 0" by (simp add: py_round_def Let_def)
  show ?thesis
    using fit_phase_zero_chunk[OF x i d p z] z by simp
qed

subsection \<open>The bandpass filter with an unknown style\<close>

text \<open>
  With a style other than brick wall, cosine and gaussian, \<open>freq_filter_bp\<close> never returns and
  never stores a filter. When the frequency axis, the Hilbert filter and the spectrum are in
  the file and the peak is found, it prints \<open>**ERROR**: Unrecognized filter function\<close>; the
  \<open>else\<close> branch ends there, with no \<open>raise\<close>, and the next statement reads \<open>bp\<close>, which
  no branch has bound: \<open>UnboundLocalError\<close>. The three known styles never raise that error.
\<close>

lemma unknown_style_raises:
  "(style \<notin> {''brick wall'', ''cosine'', ''gaussian''} \<longrightarrow>
      (\<exists>e st'. freq_filter_bp st bw order style = Raised e st' \<and> f_bp st' = f_bp st) \<and>
      (\<forall>fa Hc FT FTrh i.
         f_freq st = Some fa \<and> f_Hc st = Some Hc \<and> f_FT st = Some FT \<and>
         np_mul Hc (abs_spectrum FT) = Some FTrh \<and> np_argmax FTrh = Some i \<and>
         i < length (vals fa) \<longrightarrow>
         freq_filter_bp st bw order style =
           Raised UnboundLocalError
             (st\<lparr>stdout := stdout st @ [''**ERROR**: Unrecognized filter function'']\<rparr>))) \<and>
   (style \<in> {''brick wall'', ''cosine'', ''gaussian''} \<longrightarrow>
      (\<forall>st'. freq_filter_bp st bw order style \<noteq> Raised UnboundLocalError st'))"
proof (intro conjI impI)
  assume style: "style \<notin> {''brick wall'', ''cosine'', ''gaussian''}"
  have none: "bp_shape style order freq fc bw = None" for freq fc
    using style by (simp add: bp_shape_def)
  show "\<exists>e st'. freq_filter_bp st bw order style = Raised e st' \<and> f_bp st' = f_bp st"
    by (auto simp: freq_filter_bp_def none Let_def split: option.splits)
  show "\<forall>fa Hc FT FTrh i.
         f_freq st = Some fa \<and> f_Hc st = Some Hc \<and> f_FT st = Some FT \<and>
         np_mul Hc (abs_spectrum FT) = Some FTrh \<and> np_argmax FTrh = Some i \<and>
         i < length (vals fa) \<longrightarrow>
         freq_filter_bp st bw order style =
           Raised UnboundLocalError
             (st\<lparr>stdout := stdout st @ [''**ERROR**: Unrecognized filter function'']\<rparr>)"
    by (auto simp: freq_filter_bp_def none Let_def)
next
  assume style: "style \<in> {''brick wall'', ''cosine'', ''gaussian''}"
  have some: "(bp_shape style order freq fc bw = None) = False" for freq fc
    using style by (auto simp: bp_shape_def Let_def)
  show "\<forall>st'. freq_filter_bp st bw order style \<noteq> Raised UnboundLocalError st'"
    by (auto simp: freq_filter_bp_def Let_def some split: option.splits sum.splits)
qed

text \<open>
  C7. The style \<open>triangle\<close> is none of brick wall, cosine and gaussian. On a file that holds
  a frequency axis, a Hilbert filter and a spectrum, \<open>freq_filter_bp\<close> with this style prints
  \<open>**ERROR**: Unrecognized filter function\<close> and then fails with Python's
  \<open>UnboundLocalError\<close> on the unbound name \<open>bp\<close>, not with an error about the style; the
  file is left as it was, with no filter stored.
\<close>

theorem unknown_style_unbound_local:
  "freq_filter_bp peak3 1 50 ''triangle'' =
     Raised UnboundLocalError
       (peak3\<lparr>stdout := [''**ERROR**: Unrecognized filter function'']\<rparr>)"
proof -
  have s: "''triangle'' \<notin> {''brick wall'', ''cosine'', ''gaussian''}" by simp
  have pre: "f_freq peak3 = Some \<lparr>vals = [0, 1, 2], initial_step = Some (0, 1000)\<rparr> \<and>
      f_Hc peak3 = Some [1, 2, 2] \<and> f_FT peak3 = Some (Power [0, 5, 1]) \<and>
      np_mul [1, 2, 2] (abs_spectrum (Power [0, 5, 1])) = Some [0, 10, 2] \<and>
      np_argmax [0, 10, 2] = Some 1 \<and>
      1 < length (vals \<lparr>vals = [0, 1, 2], initial_step = Some (0, 1000)\<rparr>)"
    by (simp add: peak3_def empty_signal_def np_mul_def np_argmax_def)
  have "stdout peak3 = []" by (simp add: peak3_def empty_signal_def)
  then show ?thesis
    using unknown_style_raises[of "''triangle''" peak3 1 50] pre s by auto
qed

subsection \<open>The bandpass filter's weights\<close>

lemma argmax_from_bound:
  assumes "best < i"
  shows "argmax_from best v i as < i + length as"
  using assms
proof (induction as arbitrary: best v i)
  case Nil
  then show ?case by simp
next
  case (Cons a as)
  have "argmax_from i a (Suc i) as < Suc i + length as"
    using Cons.IH[of i "Suc i" a] by simp
  moreover have "argmax_from best v (Suc i) as < Suc i + length as"
    using Cons.IH[of best "Suc i" v] Cons.prems by simp
  ultimately show ?case by simp
qed

lemma np_argmax_bound:
  assumes "np_argmax a = Some i"
  shows "i < length a"
proof (cases a)
  case Nil
  then show ?thesis using assms by (simp add: np_argmax_def)
next
  case (Cons v as)
  then show ?thesis
    using assms argmax_from_bound[of 0 1 v as] by (auto simp: np_argmax_def)
qed

lemma length_scatter: "length (scatter bs vs) = length bs"
  by (induction bs vs rule: scatter.induct) auto

lemma scatter_false:
  assumes "k < length bs" "\<not> bs ! k"
  shows "scatter bs vs ! k = 0"
  using assms
proof (induction bs vs arbitrary: k rule: scatter.induct)
  case (1 vs)
  then show ?case by simp
next
  case (2 bs vs)
  then show ?case by (cases k) auto
next
  case (3 bs v vs)
  then show ?case by (cases k) auto
next
  case (4 bs)
  then show ?case by (cases k) auto
qed

lemma np_mul_same_length:
  assumes "length a = length b"
  shows "np_mul a b = Some (map2 (*) a b)"
  using assms by (simp add: np_mul_def)

lemma freq_filter_bp_returns:
  assumes fa: "f_freq st = Some fa" and Hc: "f_Hc st = Some Hc" and FT: "f_FT st = Some FT"
    and len: "length Hc = length (vals fa)" "length (abs_spectrum FT) = length (vals fa)"
    and peak: "np_argmax (map2 (*) Hc (abs_spectrum FT)) = Some ic"
    and fresh: "f_bp st = None"
    and shape: "bp_shape style order (vals fa) (vals fa ! ic) bw = Some (Inr bp)"
    and lbp: "length bp = length (vals fa)"
  shows "freq_filter_bp st bw order style = Returned (st\<lparr>f_bp := Some bp\<rparr>)"
proof -
  have ic: "ic < length (vals fa)"
    using np_argmax_bound[OF peak] len by simp
  have m1: "np_mul Hc (abs_spectrum FT) = Some (map2 (*) Hc (abs_spectrum FT))"
    using len by (simp add: np_mul_same_length)
  have m2: "np_mul Hc bp = Some (map2 (*) Hc bp)"
    using len lbp by (simp add: np_mul_same_length)
  have m3: "np_mul (map2 (*) Hc bp) (abs_spectrum FT) =
            Some (map2 (*) (map2 (*) Hc bp) (abs_spectrum FT))"
    using len lbp by (simp add: np_mul_same_length)
  show ?thesis
    using ic by (simp add: freq_filter_bp_def fa Hc FT m1 peak shape fresh m2 m3)
qed

lemma brick_wall_centre: "1 \<le> order \<Longrightarrow> brick_wall order 0 = 1"
  by (simp add: brick_wall_def power_0_left)

lemma gaussian_centre: "gaussian 0 = 1"
  by (simp add: gaussian_def)

lemma gaussian_edge: "gaussian 1 = exp (- 1)" "gaussian (- 1) = exp (- 1)"
  by (simp_all add: gaussian_def)

lemma cosine_bp_outside:
  assumes "k < length freq" "freq ! k < fc - bw \<or> fc + bw < freq ! k"
  shows "cosine_bp freq fc bw ! k = 0"
  using assms by (auto simp: cosine_bp_def Let_def intro!: scatter_false)

lemma length_cosine_bp: "length (cosine_bp freq fc bw) = length freq"
  by (simp add: cosine_bp_def Let_def length_scatter)

text \<open>
  C4, as the code has it. Let the frequency axis, the Hilbert filter and the spectrum have
  the same length, let \<open>fc\<close> be the axis value at the peak of \<open>Hc |FT|\<close>, and \<open>bw > 0\<close>.
  Then the filter is stored and, at every axis point \<open>k\<close>:
  brick wall with \<open>order \<ge> 1\<close>: the weight is 1 where the frequency is \<open>fc\<close>;
  gaussian: the weight is 1 where the frequency is \<open>fc\<close> and \<open>exp(-1)\<close> where it is
  \<open>fc + bw\<close> or \<open>fc - bw\<close>;
  cosine: the weight is 0 where the frequency is outside \<open>[fc - bw, fc + bw]\<close>.
\<close>

theorem bandpass_weights:
  assumes fa: "f_freq st = Some fa" and Hc: "f_Hc st = Some Hc" and FT: "f_FT st = Some FT"
    and len: "length Hc = length (vals fa)" "length (abs_spectrum FT) = length (vals fa)"
    and peak: "np_argmax (map2 (*) Hc (abs_spectrum FT)) = Some ic"
    and fc: "fc = vals fa ! ic"
    and bw: "0 < bw" and fresh: "f_bp st = None"
    and k: "k < length (vals fa)"
  shows "(1 \<le> order \<longrightarrow>
            (\<exists>st' w. freq_filter_bp st bw order ''brick wall'' = Returned st' \<and>
               f_bp st' = Some w \<and> length w = length (vals fa) \<and>
               (vals fa ! k = fc \<longrightarrow> w ! k = 1))) \<and>
         (\<exists>st' w. freq_filter_bp st bw order ''gaussian'' = Returned st' \<and>
            f_bp st' = Some w \<and> length w = length (vals fa) \<and>
            (vals fa ! k = fc \<longrightarrow> w ! k = 1) \<and>
            (vals fa ! k = fc + bw \<or> vals fa ! k = fc - bw \<longrightarrow> w ! k = exp (- 1))) \<and>
         (\<exists>st' w. freq_filter_bp st bw order ''cosine'' = Returned st' \<and>
            f_bp st' = Some w \<and> length w = length (vals fa) \<and>
            (vals fa ! k < fc - bw \<or> fc + bw < vals fa ! k \<longrightarrow> w ! k = 0))"
proof (intro conjI impI)
  assume order: "1 \<le> order"
  define bp where "bp = map (brick_wall order) (map (\<lambda>f. (f - fc) / bw) (vals fa))"
  have "bp_shape ''brick wall'' order (vals fa) (vals fa ! ic) bw = Some (Inr bp)"
    using bw by (simp add: bp_shape_def bp_def fc)
  then have run: "freq_filter_bp st bw order ''brick wall'' = Returned (st\<lparr>f_bp := Some bp\<rparr>)"
    by (rule freq_filter_bp_returns[OF fa Hc FT len peak fresh]) (simp add: bp_def)
  have "bp ! k = 1" if "vals fa ! k = fc"
    using that k order by (simp add: bp_def brick_wall_centre)
  then show "\<exists>st' w. freq_filter_bp st bw order ''brick wall'' = Returned st' \<and>
               f_bp st' = Some w \<and> length w = length (vals fa) \<and>
               (vals fa ! k = fc \<longrightarrow> w ! k = 1)"
    using run by (simp add: bp_def)
next
  define bp where "bp = map gaussian (map (\<lambda>f. (f - fc) / bw) (vals fa))"
  have "bp_shape ''gaussian'' order (vals fa) (vals fa ! ic) bw = Some (Inr bp)"
    using bw by (simp add: bp_shape_def bp_def fc)
  then have run: "freq_filter_bp st bw order ''gaussian'' = Returned (st\<lparr>f_bp := Some bp\<rparr>)"
    by (rule freq_filter_bp_returns[OF fa Hc FT len peak fresh]) (simp add: bp_def)
  have c: "bp ! k = 1" if "vals fa ! k = fc"
    using that k by (simp add: bp_def gaussian_centre)
  have e: "bp ! k = exp (- 1)" if "vals fa ! k = fc + bw \<or> vals fa ! k = fc - bw"
    using that k bw by (auto simp: bp_def gaussian_edge)
  show "\<exists>st' w. freq_filter_bp st bw order ''gaussian'' = Returned st' \<and>
            f_bp st' = Some w \<and> length w = length (vals fa) \<and>
            (vals fa ! k = fc \<longrightarrow> w ! k = 1) \<and>
            (vals fa ! k = fc + bw \<or> vals fa ! k = fc - bw \<longrightarrow> w ! k = exp (- 1))"
    using run c e by (simp add: bp_def)
next
  define bp where "bp = cosine_bp (vals fa) fc bw"
  have "bp_shape ''cosine'' order (vals fa) (vals fa ! ic) bw = Some (Inr bp)"
    by (simp add: bp_shape_def bp_def fc)
  then have run: "freq_filter_bp st bw order ''cosine'' = Returned (st\<lparr>f_bp := Some bp\<rparr>)"
    by (rule freq_filter_bp_returns[OF fa Hc FT len peak fresh]) (simp add: bp_def length_cosine_bp)
  have z: "bp ! k = 0" if "vals fa ! k < fc - bw \<or> fc + bw < vals fa ! k"
    unfolding bp_def by (rule cosine_bp_outside[OF k that])
  show "\<exists>st' w. freq_filter_bp st bw order ''cosine'' = Returned st' \<and>
            f_bp st' = Some w \<and> length w = length (vals fa) \<and>
            (vals fa ! k < fc - bw \<or> fc + bw < vals fa ! k \<longrightarrow> w ! k = 0)"
    using run z by (simp add: bp_def length_cosine_bp)
qed


theorem brick_wall_order_zero_counterexample:
  "np_argmax (map2 (*) [1, 2, 2] (abs_spectrum (Power [0, 5, 1]))) = Some 1 \<and>
   [0, 1, 2 :: real] ! 1 = 1 \<and>
   freq_filter_bp peak3 1 0 ''brick wall'' = Returned (peak3\<lparr>f_bp := Some [1 / 2, 1 / 2, 1 / 2]\<rparr>)"
  by (simp add: freq_filter_bp_def peak3_def empty_signal_def np_mul_def np_argmax_def
      bp_shape_def brick_wall_def)

theorem bandpass_weights_witness:
  "(\<exists>st' w. freq_filter_bp peak3 1 50 ''brick wall'' = Returned st' \<and> f_bp st' = Some w \<and>
      length w = 3 \<and> w ! 1 = 1) \<and>
   (\<exists>st' w. freq_filter_bp peak3 1 50 ''gaussian'' = Returned st' \<and> f_bp st' = Some w \<and>
      w ! 1 = 1 \<and> w ! 0 = exp (- 1) \<and> w ! 2 = exp (- 1)) \<and>
   (\<exists>st' w. freq_filter_bp peak3 (1 / 2) 50 ''cosine'' = Returned st' \<and> f_bp st' = Some w \<and>
      w ! 0 = 0 \<and> w ! 2 = 0)"
proof -
  have fa: "f_freq peak3 = Some \<lparr>vals = [0, 1, 2], initial_step = Some (0, 1000)\<rparr>"
    and Hc: "f_Hc peak3 = Some [1, 2, 2]" and FT: "f_FT peak3 = Some (Power [0, 5, 1])"
    and len: "length [1, 2, 2 :: real] = length (vals \<lparr>vals = [0, 1, 2], initial_step = Some (0, 1000)\<rparr>)"
      "length (abs_spectrum (Power [0, 5, 1])) =
         length (vals \<lparr>vals = [0, 1, 2], initial_step = Some (0, 1000)\<rparr>)"
    and peak: "np_argmax (map2 (*) [1, 2, 2] (abs_spectrum (Power [0, 5, 1]))) = Some 1"
    and fc: "(1::real) = vals \<lparr>vals = [0, 1, 2], initial_step = Some (0, 1000)\<rparr> ! 1"
    and fresh: "f_bp peak3 = None"
    by (simp_all add: peak3_def empty_signal_def np_argmax_def)
  have bw1: "(0::real) < 1" and bw2: "(0::real) < 1 / 2" by simp_all
  have k: "0 < length (vals \<lparr>vals = [0, 1, 2], initial_step = Some (0, 1000)\<rparr>)"
      "1 < length (vals \<lparr>vals = [0, 1, 2], initial_step = Some (0, 1000)\<rparr>)"
      "2 < length (vals \<lparr>vals = [0, 1, 2], initial_step = Some (0, 1000)\<rparr>)"
    by simp_all
  note t = bandpass_weights[OF fa Hc FT len peak fc _ fresh, of _ _ 50]
  have b: "\<exists>st' w. freq_filter_bp peak3 1 50 ''brick wall'' = Returned st' \<and> f_bp st' = Some w \<and>
      length w = 3 \<and> w ! 1 = 1"
    using t[OF bw1 k(2)] by (simp add: eval_nat_numeral)
  have g: "\<exists>st' w. freq_filter_bp peak3 1 50 ''gaussian'' = Returned st' \<and> f_bp st' = Some w \<and>
      w ! 1 = 1 \<and> w ! 0 = exp (- 1) \<and> w ! 2 = exp (- 1)"
    using t[OF bw1 k(1)] t[OF bw1 k(2)] t[OF bw1 k(3)] by auto
  have c: "\<exists>st' w. freq_filter_bp peak3 (1 / 2) 50 ''cosine'' = Returned st' \<and> f_bp st' = Some w \<and>
      w ! 0 = 0 \<and> w ! 2 = 0"
    using t[OF bw2 k(1)] t[OF bw2 k(3)] by auto
  show ?thesis using b g c by blast
qed

subsection \<open>The Spectral Transform in power mode\<close>

lemma select_append_false_true:
  "select (xs @ ys) (replicate (length xs) False @ replicate (length ys) True) = ys"
proof -
  have "zip (xs @ ys) (replicate (length xs) False @ replicate (length ys) True) =
        zip xs (replicate (length xs) False) @ zip ys (replicate (length ys) True)"
    by simp
  moreover have "filter snd (zip xs (replicate (length xs) False)) = []"
    by (auto simp: filter_empty_conv dest: set_zip_rightD)
  moreover have "filter snd (zip ys (replicate (length ys) True)) = zip ys (replicate (length ys) True)"
    by (auto simp: filter_id_conv dest: set_zip_rightD)
  ultimately show ?thesis
    by (simp add: select_def map_fst_zip)
qed

lemma length_np_fftfreq:
  assumes "1 \<le> n"
  shows "length (np_fftfreq n d) = n"
  using assms by (simp add: np_fftfreq_def)

lemma upto_nat: "[0 .. int n - 1] = map int [0..<n]"
  by (induction n) (auto simp: upto_rec2)

lemma np_fftshift_fftfreq:
  assumes "1 \<le> n"
  shows "np_fftshift (np_fftfreq n d) =
           map (\<lambda>k. of_int k * (1 / (of_nat n * d))) [- (int n div 2) .. - 1]
           @ map (\<lambda>k. real k * (1 / (of_nat n * d))) [0..<(n + 1) div 2]"
proof -
  have l1: "length [0 .. (int n - 1) div 2] = (n + 1) div 2"
    using assms by simp
  have l2: "n - n div 2 = (n + 1) div 2" by linarith
  have u: "[0 .. (int n - 1) div 2] = map int [0..<(n + 1) div 2]"
  proof -
    have "(int n - 1) div 2 = int ((n + 1) div 2) - 1" using assms by linarith
    then show ?thesis using upto_nat[of "(n + 1) div 2"] by simp
  qed
  have "np_fftshift (np_fftfreq n d) =
      map (\<lambda>k. of_int k * (1 / (of_nat n * d))) [- (int n div 2) .. - 1]
      @ map (\<lambda>k. of_int k * (1 / (of_nat n * d))) [0 .. (int n - 1) div 2]"
    using assms l1 l2
    by (simp add: np_fftshift_def Let_def length_np_fftfreq) (simp add: np_fftfreq_def)
  then show ?thesis by (simp add: u comp_def)
qed


lemma length_np_fft: "length (np_fft s) = length s"
  by (simp add: np_fft_def)

lemma np_fftshift_split:
  "np_fftshift a = drop ((length a + 1) div 2) a @ take ((length a + 1) div 2) a"
proof -
  have "length a - length a div 2 = (length a + 1) div 2" by linarith
  then show ?thesis by (simp add: np_fftshift_def Let_def)
qed

lemma keep_nonneg:
  assumes "0 < d" "1 \<le> n"
  shows "map (\<lambda>f. f \<ge> 0) (np_fftshift (np_fftfreq n d)) =
           replicate (n div 2) False @ replicate ((n + 1) div 2) True"
proof -
  have c: "0 < 1 / (real n * d)" using assms by simp
  have neg: "map (\<lambda>f. f \<ge> 0) (map (\<lambda>k. real_of_int k * (1 / (real n * d))) [- (int n div 2) .. - 1])
             = replicate (n div 2) False"
  proof (rule nth_equalityI)
    show "length (map (\<lambda>f. f \<ge> 0) (map (\<lambda>k. real_of_int k * (1 / (real n * d)))
            [- (int n div 2) .. - 1])) = length (replicate (n div 2) False)"
      by simp
    fix i assume "i < length (map (\<lambda>f. f \<ge> 0) (map (\<lambda>k. real_of_int k * (1 / (real n * d)))
            [- (int n div 2) .. - 1]))"
    then have i: "i < n div 2" by simp
    then have "[- (int n div 2) .. - 1] ! i = - (int n div 2) + int i"
      by (simp add: nth_upto)
    moreover have "real_of_int (- (int n div 2) + int i) * (1 / (real n * d)) < 0"
      using c i by (intro mult_neg_pos) auto
    ultimately show "map (\<lambda>f. f \<ge> 0) (map (\<lambda>k. real_of_int k * (1 / (real n * d)))
            [- (int n div 2) .. - 1]) ! i = replicate (n div 2) False ! i"
      using i by simp
  qed
  have pos: "map (\<lambda>f. f \<ge> 0) (map (\<lambda>k. real k * (1 / (real n * d))) [0..<(n + 1) div 2])
             = replicate ((n + 1) div 2) True"
    using c by (intro nth_equalityI) auto
  show ?thesis
    unfolding np_fftshift_fftfreq[OF assms(2)] using neg pos by simp
qed


lemma psd_freq:
  assumes "0 < d" "1 \<le> n"
  shows "select (np_fftshift (np_fftfreq n d))
           (map (\<lambda>f. f \<ge> 0) (np_fftshift (np_fftfreq n d))) =
         map (\<lambda>k. real k * (1 / (real n * d))) [0..<(n + 1) div 2]"
proof -
  let ?neg = "map (\<lambda>k. real_of_int k * (1 / (real n * d))) [- (int n div 2) .. - 1]"
  let ?pos = "map (\<lambda>k. real k * (1 / (real n * d))) [0..<(n + 1) div 2]"
  have l: "length ?neg = n div 2" "length ?pos = (n + 1) div 2" by simp_all
  have "select (?neg @ ?pos) (replicate (n div 2) False @ replicate ((n + 1) div 2) True) = ?pos"
    using select_append_false_true[of ?neg ?pos] unfolding l .
  then show ?thesis
    by (subst keep_nonneg[OF assms]) (subst np_fftshift_fftfreq[OF assms(2)])
qed

lemma map_take_as_map_nth:
  assumes "N \<le> length F"
  shows "map g (take N F) = map (\<lambda>k. g (F ! k)) [0..<N]"
  using assms by (intro nth_equalityI) auto

lemma psd_values:
  assumes "0 < d" "1 \<le> n" "length F = n"
  shows "select (map g (np_fftshift F)) (map (\<lambda>f. f \<ge> 0) (np_fftshift (np_fftfreq n d))) =
         map (\<lambda>k. g (F ! k)) [0..<(n + 1) div 2]"
proof -
  let ?N = "(n + 1) div 2"
  have N: "?N \<le> length F" using assms by simp
  have l: "length (map g (drop ?N F)) = n div 2" "length (map g (take ?N F)) = ?N"
    using assms by auto
  have "select (map g (drop ?N F) @ map g (take ?N F))
          (replicate (n div 2) False @ replicate ?N True) = map g (take ?N F)"
    using select_append_false_true[of "map g (drop ?N F)" "map g (take ?N F)"] unfolding l .
  moreover have "map g (np_fftshift F) = map g (drop ?N F) @ map g (take ?N F)"
    using assms(3) by (simp add: np_fftshift_split)
  moreover have "map g (take ?N F) = map (\<lambda>k. g (F ! k)) [0..<?N]"
    by (rule map_take_as_map_nth[OF N])
  ultimately show ?thesis
    by (simp only: keep_nonneg[OF assms(1,2)])
qed

lemma np_fftfreq_nth:
  assumes "1 \<le> n" "k < n"
  shows "np_fftfreq n d ! k =
           real_of_int (([0 .. (int n - 1) div 2] @ [- (int n div 2) .. - 1]) ! k)
           * (1 / (real n * d))"
proof -
  have "k < length ([0 .. (int n - 1) div 2] @ [- (int n div 2) .. - 1])"
    using assms by simp
  then show ?thesis
    unfolding np_fftfreq_def by (rule nth_map)
qed

lemma fftfreq_sign:
  assumes "0 < d" "1 \<le> n" "k < n"
  shows "(0 \<le> np_fftfreq n d ! k) = (k < (n + 1) div 2)"
proof -
  have c: "0 < 1 / (real n * d)" using assms by simp
  have len: "length [0 .. (int n - 1) div 2] = (n + 1) div 2" using assms by simp
  show ?thesis
  proof (cases "k < (n + 1) div 2")
    case True
    then have "([0 .. (int n - 1) div 2] @ [- (int n div 2) .. - 1]) ! k = int k"
      using len by (simp add: nth_append nth_upto)
    then have "np_fftfreq n d ! k = real k * (1 / (real n * d))"
      by (simp only: np_fftfreq_nth[OF assms(2,3)] of_int_of_nat_eq)
    moreover have "0 \<le> real k * (1 / (real n * d))"
      using c by (intro mult_nonneg_nonneg) auto
    ultimately show ?thesis using True by simp
  next
    case False
    then have "([0 .. (int n - 1) div 2] @ [- (int n div 2) .. - 1]) ! k =
        - (int n div 2) + int (k - (n + 1) div 2)"
      using len assms by (simp add: nth_append nth_upto)
    then have e: "np_fftfreq n d ! k =
        real_of_int (- (int n div 2) + int (k - (n + 1) div 2)) * (1 / (real n * d))"
      by (simp only: np_fftfreq_nth[OF assms(2,3)])
    have "- (int n div 2) + int (k - (n + 1) div 2) < 0" using False assms by linarith
    then have "np_fftfreq n d ! k < 0"
      unfolding e using c by (intro mult_neg_pos) auto
    then show ?thesis using False by simp
  qed
qed

text \<open>
  C3, as the code has it. For a working array \<open>s\<close> of length \<open>m \<ge> 3\<close> and a sample period
  \<open>dt > 0\<close>, \<open>fft(psd=True)\<close> returns and stores, for the bins \<open>k = 0, ..., (m+1) div 2 - 1\<close>,
  the values \<open>(dt/m) |FFT(s)[k]|\<^sup>2\<close>, with nothing doubled; these are exactly the bins
  whose frequency \<open>np.fft.fftfreq(m, dt)[k]\<close> is not negative. The frequency axis stored
  with them is \<open>k/(m dt)\<close>, in kHz.
\<close>

theorem psd_single_sided:
  assumes s: "working_array st = Inr s" and m: "m = length s" "3 \<le> m"
    and x: "f_x st = Some xa" "initial_step xa = Some (x0, dt)" and dt: "0 < dt"
    and fresh: "f_freq st = None" "f_FT st = None"
  shows "\<exists>st'. fft st True = Returned st' \<and>
           f_FT st' = Some (Power (map (\<lambda>k. (dt / real m) * (cmod (np_fft s ! k))\<^sup>2)
                                     [0..<(m + 1) div 2])) \<and>
           map_option vals (f_freq st') =
             Some (map (\<lambda>k. real k * (1 / (real m * dt)) / 1000) [0..<(m + 1) div 2]) \<and>
           (\<forall>k<m. (0 \<le> np_fftfreq m dt ! k) = (k < (m + 1) div 2))"
proof -
  have m1: "1 \<le> length s" and ne: "s \<noteq> []" using m by auto
  have two: "\<not> (length s + 1) div 2 < 2" using m by linarith
  have sign: "\<forall>k<m. (0 \<le> np_fftfreq m dt ! k) = (k < (m + 1) div 2)"
    using fftfreq_sign[OF dt] m by auto
  have "\<exists>st'. fft st True = Returned st' \<and>
           f_FT st' = Some (Power (map (\<lambda>k. (dt / real m) * (cmod (np_fft s ! k))\<^sup>2)
                                     [0..<(m + 1) div 2])) \<and>
           map_option vals (f_freq st') =
             Some (map (\<lambda>k. real k * (1 / (real m * dt)) / 1000) [0..<(m + 1) div 2])"
    using dt ne two m1
    by (simp add: fft_def s x fresh Let_def psd_freq psd_values length_np_fft m(1) comp_def)
  then show ?thesis using sign by blast
qed

lemma fftshift_fftfreq_2: "np_fftshift (np_fftfreq (Suc (Suc 0)) 1) = [- 1 / 2, 0]"
proof -
  have "[0 .. (int (Suc (Suc 0)) - 1) div 2] = [0]" "[- (int (Suc (Suc 0)) div 2) .. - 1] = [- 1]"
    by (simp_all add: upto_rec1)
  then show ?thesis
    by (simp add: np_fftfreq_def np_fftshift_def)
qed

theorem psd_two_samples_counterexample:
  "working_array pair2 = Inr [1, 1] \<and>
   fft pair2 True = Raised IndexError (pair2\<lparr>f_freq := Some \<lparr>vals = [0], initial_step = None\<rparr>\<rparr>)"
  by (simp add: working_array_def fft_def pair2_def empty_signal_def fftshift_fftfreq_2
      select_def Let_def)

lemma trig_three_quarters: "cos (pi * 3 / 2) = 0" "sin (pi * 3 / 2) = - 1"
proof -
  have e: "pi * 3 / 2 = 3 / 2 * pi" by simp
  show "cos (pi * 3 / 2) = 0" unfolding e by (rule cos_3over2_pi)
  show "sin (pi * 3 / 2) = - 1" unfolding e by (rule sin_3over2_pi)
qed

lemma np_fft_pair: "np_fft [1, 1] = [2, 0]"
  by (simp add: np_fft_def numeral_2_eq_2 complex_eq_iff)

lemma np_fft_ramp4_0: "np_fft [1, 2, 3, 4] ! 0 = 10"
  by (simp add: np_fft_def eval_nat_numeral)

lemma np_fft_ramp4_1: "np_fft [1, 2, 3, 4] ! 1 = Complex (- 2) 2"
  by (simp add: np_fft_def eval_nat_numeral complex_eq_iff trig_three_quarters)

theorem psd_single_sided_witness:
  "\<exists>st'. fft ramp4 True = Returned st' \<and>
     f_FT st' = Some (Power [25, 2]) \<and>
     map_option vals (f_freq st') = Some [0, 1 / 4000]"
proof -
  have s: "working_array ramp4 = Inr [1, 2, 3, 4]"
    and x: "f_x ramp4 = Some \<lparr>vals = [0, 1, 2, 3], initial_step = Some (0, 1)\<rparr>"
    and i: "initial_step \<lparr>vals = [0, 1, 2, 3], initial_step = Some (0, 1)\<rparr> = Some (0, 1)"
    and fresh: "f_freq ramp4 = None" "f_FT ramp4 = None"
    by (simp_all add: working_array_def ramp4_def empty_signal_def)
  have m: "4 = length [1, 2, 3, 4 :: real]" "3 \<le> (4::nat)" and dt: "(0::real) < 1"
    by simp_all
  have u: "[0..<(4 + 1) div 2] = [0, 1]" by code_simp
  have v: "(1 / real 4) * (cmod (np_fft [1, 2, 3, 4] ! 0))\<^sup>2 = 25"
      "(1 / real 4) * (cmod (np_fft [1, 2, 3, 4] ! 1))\<^sup>2 = 2"
    unfolding np_fft_ramp4_0 np_fft_ramp4_1 by (simp_all add: cmod_power2)
  obtain st' where "fft ramp4 True = Returned st'"
    and "f_FT st' = Some (Power (map (\<lambda>k. (1 / real 4) * (cmod (np_fft [1, 2, 3, 4] ! k))\<^sup>2) [0, 1]))"
    and "map_option vals (f_freq st') = Some (map (\<lambda>k. real k * (1 / (real 4 * 1)) / 1000) [0, 1])"
    using psd_single_sided[OF s m x i dt fresh] unfolding u by blast
  then show ?thesis
    using v by (intro exI[of _ st']) simp
qed

subsection \<open>The stored frequency axis and its attributes\<close>

lemma np_fftshift_fftfreq_centred:
  assumes "1 \<le> n"
  shows "np_fftshift (np_fftfreq n d) =
           map (\<lambda>j. (real j - real (n div 2)) * (1 / (real n * d))) [0..<n]"
proof (rule nth_equalityI)
  show "length (np_fftshift (np_fftfreq n d)) =
        length (map (\<lambda>j. (real j - real (n div 2)) * (1 / (real n * d))) [0..<n])"
    using assms by (simp add: np_fftshift_fftfreq)
next
  fix j assume "j < length (np_fftshift (np_fftfreq n d))"
  then have j: "j < n" using assms by (simp add: np_fftshift_fftfreq)
  have ln: "length (map (\<lambda>k. real_of_int k * (1 / (real n * d))) [- (int n div 2) .. - 1]) = n div 2"
    by simp
  show "np_fftshift (np_fftfreq n d) ! j =
        map (\<lambda>j. (real j - real (n div 2)) * (1 / (real n * d))) [0..<n] ! j"
  proof (cases "j < n div 2")
    case True
    then have "[- (int n div 2) .. - 1] ! j = - (int n div 2) + int j"
      by (simp add: nth_upto)
    moreover have lu: "j < length [- (int n div 2) .. - 1]" using True by simp
    moreover have "np_fftshift (np_fftfreq n d) ! j =
        map (\<lambda>k. real_of_int k * (1 / (real n * d))) [- (int n div 2) .. - 1] ! j"
      using True by (simp only: np_fftshift_fftfreq[OF assms] nth_append ln if_True)
    ultimately have "np_fftshift (np_fftfreq n d) ! j =
        real_of_int (- (int n div 2) + int j) * (1 / (real n * d))"
      by (simp only: nth_map)
    also have "real_of_int (- (int n div 2) + int j) = real j - real (n div 2)"
    proof -
      have "int n div 2 = int (n div 2)" by (simp add: zdiv_int)
      then show ?thesis by simp
    qed
    finally show ?thesis using j by simp
  next
    case False
    then have k: "j - n div 2 < (n + 1) div 2" using j by linarith
    have "np_fftshift (np_fftfreq n d) ! j =
        map (\<lambda>k. real k * (1 / (real n * d))) [0..<(n + 1) div 2] ! (j - n div 2)"
      using False by (simp only: np_fftshift_fftfreq[OF assms] nth_append ln if_False)
    also have "\<dots> = real (j - n div 2) * (1 / (real n * d))"
      using k by (simp only: nth_map_upt add_0 minus_nat.diff_0)
    also have "real (j - n div 2) = real j - real (n div 2)"
      using False by (simp add: of_nat_diff)
    finally show ?thesis using j by simp
  qed
qed


lemma fft_outcome:
  assumes s: "working_array st = Inr s" and ne: "s \<noteq> []"
    and x: "f_x st = Some xa" "initial_step xa = Some (x0, dt)" and dt: "dt \<noteq> 0"
    and fresh: "f_freq st = None" "f_FT st = None"
    and freq: "freq = (if psd
        then select (np_fftshift (np_fftfreq (length s) dt))
               (map (\<lambda>f. f \<ge> 0) (np_fftshift (np_fftfreq (length s) dt)))
        else np_fftshift (np_fftfreq (length s) dt))"
  shows "fft st psd =
      (if length freq < 2
         then Raised IndexError
                (st\<lparr>f_freq := Some \<lparr>vals = map (\<lambda>f. f / 1000) freq, initial_step = None\<rparr>\<rparr>)
       else Returned (st\<lparr>f_freq := Some \<lparr>vals = map (\<lambda>f. f / 1000) freq,
                        initial_step = Some (freq ! 0, freq ! 1 - freq ! 0)\<rparr>,
                      f_FT := Some (if psd
          then Power (select (map (\<lambda>z. (dt / real (length s)) * (cmod z)\<^sup>2)
                                (np_fftshift (np_fft s)))
                        (map (\<lambda>f. f \<ge> 0) (np_fftshift (np_fftfreq (length s) dt))))
          else Linear (map (\<lambda>z. of_real dt * z) (np_fftshift (np_fft s))))\<rparr>))"
  using ne dt by (simp add: fft_def s x fresh Let_def freq)

lemma fft_freq_closed:
  assumes "0 < dt" "1 \<le> m"
  shows "(if psd
        then select (np_fftshift (np_fftfreq m dt))
               (map (\<lambda>f. f \<ge> 0) (np_fftshift (np_fftfreq m dt)))
        else np_fftshift (np_fftfreq m dt)) =
      map (\<lambda>j. (real j - real (if psd then 0 else m div 2)) * (1 / (real m * dt)))
        [0..<(if psd then (m + 1) div 2 else m)]"
proof (cases psd)
  case True
  then show ?thesis by (simp only: psd_freq[OF assms] if_True) simp
next
  case False
  then show ?thesis by (simp only: np_fftshift_fftfreq_centred[OF assms(2)] if_False)
qed

text \<open>
  C9, as the code has it. Let the working array have length \<open>m \<ge> 1\<close> and \<open>dt > 0\<close>.
  The transform keeps the frequencies \<open>(j - off)/(m dt)\<close> Hz for \<open>j = 0, ..., len-1\<close>
  (\<open>off = m div 2\<close>, \<open>len = m\<close>, or \<open>off = 0\<close>, \<open>len = (m+1) div 2\<close> with \<open>psd=True\<close>).
  When at least two are kept, \<open>fft\<close> returns, the dataset \<open>workup/freq/freq\<close> holds
  these frequencies, the shifted \<open>np.fft.fftfreq(m, dt)\<close> (its non-negative part with
  \<open>psd=True\<close>), divided by 1000 (kHz), and its attributes \<open>initial\<close> and \<open>step\<close> hold
  the first frequency and the spacing \<open>1/(m dt)\<close> in Hz: 1000 times the dataset's first
  entry and 1000 times the difference of any two neighbouring entries. When only one is
  kept, the dataset \<open>[0]\<close> is stored without attributes and \<open>fft\<close> raises \<open>IndexError\<close>.
\<close>

theorem freq_axis_kHz_attrs_Hz:
  assumes s: "working_array st = Inr s" and m: "m = length s" "1 \<le> m"
    and x: "f_x st = Some xa" "initial_step xa = Some (x0, dt)" and dt: "0 < dt"
    and fresh: "f_freq st = None" "f_FT st = None"
    and off: "off = (if psd then 0 else m div 2)"
    and len: "len = (if psd then (m + 1) div 2 else m)"
    and c: "c = 1 / (real m * dt)"
  shows "(2 \<le> len \<longrightarrow>
           (\<exists>st' fa. fft st psd = Returned st' \<and> f_freq st' = Some fa \<and>
              vals fa = map (\<lambda>f. f / 1000)
                (if psd
                 then select (np_fftshift (np_fftfreq m dt))
                        (map (\<lambda>f. f \<ge> 0) (np_fftshift (np_fftfreq m dt)))
                 else np_fftshift (np_fftfreq m dt)) \<and>
              vals fa = map (\<lambda>j. (real j - real off) * c / 1000) [0..<len] \<and>
              initial_step fa = Some (- real off * c, c) \<and>
              - real off * c = 1000 * (vals fa ! 0) \<and>
              (\<forall>j. Suc j < len \<longrightarrow> c = 1000 * (vals fa ! Suc j - vals fa ! j)))) \<and>
         (len < 2 \<longrightarrow>
            fft st psd = Raised IndexError
              (st\<lparr>f_freq := Some \<lparr>vals = [0], initial_step = None\<rparr>\<rparr>))"
proof -
  define freq where "freq = map (\<lambda>j. (real j - real off) * c) [0..<len]"
  have ne: "s \<noteq> []" and dt0: "dt \<noteq> 0" using m dt by auto
  have fr: "freq = (if psd
        then select (np_fftshift (np_fftfreq (length s) dt))
               (map (\<lambda>f. f \<ge> 0) (np_fftshift (np_fftfreq (length s) dt)))
        else np_fftshift (np_fftfreq (length s) dt))"
    unfolding freq_def off len c m(1)
    by (rule fft_freq_closed[OF dt, of "length s" psd, symmetric]) (use m in simp)
  note run = fft_outcome[OF s ne x dt0 fresh fr]
  have lf: "length freq = len" by (simp add: freq_def)
  have vals: "map (\<lambda>f. f / 1000) freq = map (\<lambda>j. (real j - real off) * c / 1000) [0..<len]"
    by (simp add: freq_def comp_def)
  show ?thesis
  proof (intro conjI impI)
    assume two: "2 \<le> len"
    then have i0: "0 < len" and i1: "1 < len" by simp_all
    have f0: "freq ! 0 = - real off * c" and f1: "freq ! Suc 0 = c - real off * c"
      using i0 i1 by (simp_all add: freq_def algebra_simps)
    define fa where "fa = \<lparr>vals = map (\<lambda>j. (real j - real off) * c / 1000) [0..<len],
          initial_step = Some (- real off * c, c)\<rparr>"
    define ft where "ft = (if psd
          then Power (select (map (\<lambda>z. (dt / real (length s)) * (cmod z)\<^sup>2)
                                (np_fftshift (np_fft s)))
                        (map (\<lambda>f. f \<ge> 0) (np_fftshift (np_fftfreq (length s) dt))))
          else Linear (map (\<lambda>z. of_real dt * z) (np_fftshift (np_fft s))))"
    have r: "fft st psd = Returned (st\<lparr>f_freq := Some fa, f_FT := Some ft\<rparr>)"
      using two unfolding run lf vals fa_def ft_def by (simp add: f0 f1)
    have ff: "f_freq (st\<lparr>f_freq := Some fa, f_FT := Some ft\<rparr>) = Some fa" by simp
    have v: "vals fa = map (\<lambda>j. (real j - real off) * c / 1000) [0..<len]"
      and i: "initial_step fa = Some (- real off * c, c)"
      by (simp_all add: fa_def)
    have d0: "- real off * c = 1000 * (vals fa ! 0)"
      unfolding v using i0 by simp
    have dj: "\<forall>j. Suc j < len \<longrightarrow> c = 1000 * (vals fa ! Suc j - vals fa ! j)"
    proof (intro allI impI)
      fix j assume sj: "Suc j < len"
      then have "j < len" by simp
      then show "c = 1000 * (vals fa ! Suc j - vals fa ! j)"
        unfolding v using sj by (simp add: diff_divide_distrib) (simp add: algebra_simps)
    qed
    have vs: "vals fa = map (\<lambda>f. f / 1000)
                (if psd
                 then select (np_fftshift (np_fftfreq m dt))
                        (map (\<lambda>f. f \<ge> 0) (np_fftshift (np_fftfreq m dt)))
                 else np_fftshift (np_fftfreq m dt))"
      unfolding m(1) fr[symmetric] by (simp only: v vals)
    from r ff vs v i d0 dj
    show "\<exists>st' fa. fft st psd = Returned st' \<and> f_freq st' = Some fa \<and>
              vals fa = map (\<lambda>f. f / 1000)
                (if psd
                 then select (np_fftshift (np_fftfreq m dt))
                        (map (\<lambda>f. f \<ge> 0) (np_fftshift (np_fftfreq m dt)))
                 else np_fftshift (np_fftfreq m dt)) \<and>
              vals fa = map (\<lambda>j. (real j - real off) * c / 1000) [0..<len] \<and>
              initial_step fa = Some (- real off * c, c) \<and>
              - real off * c = 1000 * (vals fa ! 0) \<and>
              (\<forall>j. Suc j < len \<longrightarrow> c = 1000 * (vals fa ! Suc j - vals fa ! j))"
      by blast
  next
    assume one: "len < 2"
    have "len = 1 \<and> off = 0"
      using one m(2) by (auto simp: len off split: if_splits)
    then have "map (\<lambda>j. (real j - real off) * c / 1000) [0..<len] = [0]" by simp
    then show "fft st psd = Raised IndexError
              (st\<lparr>f_freq := Some \<lparr>vals = [0], initial_step = None\<rparr>\<rparr>)"
      using one unfolding run lf vals by simp
  qed
qed

theorem freq_axis_without_attrs_counterexample:
  "working_array one1 = Inr [1] \<and>
   fft one1 False = Raised IndexError (one1\<lparr>f_freq := Some \<lparr>vals = [0], initial_step = None\<rparr>\<rparr>)"
proof -
  have "[0 .. (int (Suc 0) - 1) div 2] = [0]" "[- (int (Suc 0) div 2) .. - 1] = []"
    by (simp_all add: upto_rec1)
  then have "np_fftshift (np_fftfreq (Suc 0) 1) = [0]"
    by (simp add: np_fftfreq_def np_fftshift_def)
  then show ?thesis
    by (simp add: working_array_def fft_def one1_def empty_signal_def Let_def)
qed

theorem freq_axis_kHz_attrs_Hz_witness:
  "(\<exists>st' fa. fft pair2 False = Returned st' \<and> f_freq st' = Some fa \<and>
      vals fa = [- 1 / 2000, 0] \<and> initial_step fa = Some (- 1 / 2, 1 / 2) \<and>
      - 1 / 2 = (1000::real) * (vals fa ! 0) \<and>
      1 / 2 = (1000::real) * (vals fa ! 1 - vals fa ! 0)) \<and>
   (\<exists>st' fa. fft ramp4 True = Returned st' \<and> f_freq st' = Some fa \<and>
      vals fa = [0, 1 / 4000] \<and> initial_step fa = Some (0, 1 / 4)) \<and>
   fft one1 False = Raised IndexError (one1\<lparr>f_freq := Some \<lparr>vals = [0], initial_step = None\<rparr>\<rparr>)"
proof -
  have d: "(0::real) < 1" by simp
  have s2: "working_array pair2 = Inr [1, 1]"
    and x2: "f_x pair2 = Some \<lparr>vals = [0, 1], initial_step = Some (0, 1)\<rparr>"
    and i2: "initial_step \<lparr>vals = [0, 1], initial_step = Some (0, 1)\<rparr> = Some (0, 1)"
    and fr2: "f_freq pair2 = None" "f_FT pair2 = None"
    by (simp_all add: working_array_def pair2_def empty_signal_def)
  have a: "\<exists>st' fa. fft pair2 False = Returned st' \<and> f_freq st' = Some fa \<and>
      vals fa = [- 1 / 2000, 0] \<and> initial_step fa = Some (- 1 / 2, 1 / 2) \<and>
      - 1 / 2 = (1000::real) * (vals fa ! 0) \<and>
      1 / 2 = (1000::real) * (vals fa ! 1 - vals fa ! 0)"
  proof -
    have h: "2 = length [1::real, 1]" "1 \<le> (2::nat)"
      "(1::nat) = (if False then 0 else 2 div 2)"
      "(2::nat) = (if False then (2 + 1) div 2 else 2)"
      "(1 / 2::real) = 1 / (real 2 * 1)"
      by simp_all
    have u: "[0..<2] = [0, Suc 0]" by (simp add: numeral_2_eq_2)
    show ?thesis
      using freq_axis_kHz_attrs_Hz[OF s2 h(1) h(2) x2 i2 d fr2 h(3) h(4) h(5)]
      unfolding u by auto
  qed
  have s4: "working_array ramp4 = Inr [1, 2, 3, 4]"
    and x4: "f_x ramp4 = Some \<lparr>vals = [0, 1, 2, 3], initial_step = Some (0, 1)\<rparr>"
    and i4: "initial_step \<lparr>vals = [0, 1, 2, 3], initial_step = Some (0, 1)\<rparr> = Some (0, 1)"
    and fr4: "f_freq ramp4 = None" "f_FT ramp4 = None"
    by (simp_all add: working_array_def ramp4_def empty_signal_def)
  have b: "\<exists>st' fa. fft ramp4 True = Returned st' \<and> f_freq st' = Some fa \<and>
      vals fa = [0, 1 / 4000] \<and> initial_step fa = Some (0, 1 / 4)"
  proof -
    have h: "4 = length [1::real, 2, 3, 4]" "1 \<le> (4::nat)"
      "(0::nat) = (if True then 0 else 4 div 2)"
      "(2::nat) = (if True then (4 + 1) div 2 else 4)"
      "(1 / 4::real) = 1 / (real 4 * 1)"
      by simp_all
    have u: "[0..<2] = [0, Suc 0]" by (simp add: numeral_2_eq_2)
    show ?thesis
      using freq_axis_kHz_attrs_Hz[OF s4 h(1) h(2) x4 i4 d fr4 h(3) h(4) h(5)]
      unfolding u by auto
  qed
  have s1: "working_array one1 = Inr [1]"
    and x1: "f_x one1 = Some \<lparr>vals = [0], initial_step = Some (0, 1)\<rparr>"
    and i1: "initial_step \<lparr>vals = [0], initial_step = Some (0, 1)\<rparr> = Some (0, 1)"
    and fr1: "f_freq one1 = None" "f_FT one1 = None"
    by (simp_all add: working_array_def one1_def empty_signal_def)
  have c: "fft one1 False = Raised IndexError (one1\<lparr>f_freq := Some \<lparr>vals = [0], initial_step = None\<rparr>\<rparr>)"
    using freq_axis_kHz_attrs_Hz[OF s1 _ _ x1 i1 d fr1, of 1 0 False 1 1]
    by simp
  show ?thesis using a b c by blast
qed

subsection \<open>The least-squares line minimises the squared error\<close>

lemma squared_error_expand:
  assumes "length xs = length ys"
  shows "squared_error a b xs ys =
           sum_list (map (\<lambda>v. v * v) ys) - 2 * a * sum_list (map2 (*) xs ys)
           - 2 * b * sum_list ys + a\<^sup>2 * sum_list (map (\<lambda>v. v * v) xs)
           + 2 * a * b * sum_list xs + real (length xs) * b\<^sup>2"
  using assms
  by (induction xs ys rule: list_induct2)
     (simp_all add: squared_error_def algebra_simps power2_eq_square)

lemma sum_of_squares_expand:
  "sum_list (map (\<lambda>u. (p * u + q)\<^sup>2) xs) =
     p\<^sup>2 * sum_list (map (\<lambda>v. v * v) xs) + 2 * p * q * sum_list xs + real (length xs) * q\<^sup>2"
  by (induction xs) (simp_all add: algebra_simps power2_eq_square)

lemma ols_minimises_squared_error:
  assumes len: "length xs = length ys"
    and D: "real (length xs) * sum_list (map (\<lambda>v. v * v) xs) - sum_list xs * sum_list xs \<noteq> 0"
  shows "squared_error (ols_slope xs ys) (ols_intercept xs ys) xs ys \<le> squared_error a b xs ys"
proof -
  define n where "n = real (length xs)"
  define Sx where "Sx = sum_list xs"
  define Sy where "Sy = sum_list ys"
  define Sxx where "Sxx = sum_list (map (\<lambda>v. v * v) xs)"
  define Sxy where "Sxy = sum_list (map2 (*) xs ys)"
  define Syy where "Syy = sum_list (map (\<lambda>v. v * v) ys)"
  define a0 where "a0 = ols_slope xs ys"
  define b0 where "b0 = ols_intercept xs ys"
  have D': "n * Sxx - Sx * Sx \<noteq> 0" using D by (simp add: n_def Sx_def Sxx_def)
  have n0: "n \<noteq> 0"
  proof
    assume "n = 0"
    then have "xs = []" by (simp add: n_def)
    then show False using D by simp
  qed
  have a0: "a0 = (n * Sxy - Sx * Sy) / (n * Sxx - Sx * Sx)"
    by (simp add: a0_def ols_slope_def Let_def n_def Sx_def Sy_def Sxx_def Sxy_def)
  have b0: "b0 = (Sy - a0 * Sx) / n"
    by (simp add: b0_def a0_def ols_intercept_def n_def Sx_def Sy_def)
  have ne2: "Sy = a0 * Sx + n * b0"
    using n0 by (simp add: b0)
  have "a0 * (n * Sxx - Sx * Sx) = n * Sxy - Sx * Sy"
    using D' by (simp add: a0)
  then have "n * Sxy = n * (a0 * Sxx + b0 * Sx)"
    by (simp add: ne2 algebra_simps)
  then have ne1: "Sxy = a0 * Sxx + b0 * Sx"
    using n0 by simp
  have E: "squared_error a' b' xs ys =
      Syy - 2 * a' * Sxy - 2 * b' * Sy + a'\<^sup>2 * Sxx + 2 * a' * b' * Sx + n * b'\<^sup>2" for a' b'
    using squared_error_expand[OF len]
    by (simp add: n_def Sx_def Sy_def Sxx_def Sxy_def Syy_def)
  have "squared_error a b xs ys - squared_error a0 b0 xs ys =
      (a - a0)\<^sup>2 * Sxx + 2 * (a - a0) * (b - b0) * Sx + n * (b - b0)\<^sup>2"
    unfolding E by (subst (1 2) ne1, subst (1 2) ne2) (simp add: algebra_simps power2_eq_square)
  also have "\<dots> = sum_list (map (\<lambda>u. ((a - a0) * u + (b - b0))\<^sup>2) xs)"
    by (simp add: sum_of_squares_expand n_def Sx_def Sxx_def)
  also have "0 \<le> \<dots>"
    by (intro sum_list_nonneg) auto
  finally show ?thesis
    by (simp add: a0_def b0_def)
qed

subsection \<open>The closed-form slope of a chunk is the least-squares slope\<close>

lemma sum_first_naturals: "(\<Sum>k<n. real k) = real n * (real n - 1) / 2"
  by (induction n) (simp_all add: field_simps)

lemma sum_first_squares: "(\<Sum>k<n. (real k)\<^sup>2) = real n * (real n - 1) * (2 * real n - 1) / 6"
  by (induction n) (simp_all add: field_simps power2_eq_square)

lemma sum_list_map_upt: "sum_list (map f [0..<n]) = (\<Sum>k<n. f k)"
  by (simp add: sum_list_sum_nth atLeast0LessThan)

lemma SX_closed: "SX dt (int n) = (\<Sum>k<n. real k * dt)"
proof -
  have "(\<Sum>k<n. real k * dt) = (\<Sum>k<n. real k) * dt" by (simp add: sum_distrib_right)
  then show ?thesis
    by (cases n) (simp_all add: SX_def sum_first_naturals field_simps)
qed

lemma SXX_closed: "SXX dt (int n) = (\<Sum>k<n. (real k * dt)\<^sup>2)"
proof -
  have "(\<Sum>k<n. (real k * dt)\<^sup>2) = (\<Sum>k<n. (real k)\<^sup>2) * dt\<^sup>2"
    by (simp add: sum_distrib_right power_mult_distrib)
  then show ?thesis
    by (cases n) (simp_all add: SXX_def sum_first_squares field_simps)
qed


lemma map2_over_same:
  "map2 f (map g l) (map h l) = map (\<lambda>k. f (g k) (h k)) l"
  by (induction l) simp_all

lemma chunk_slope_equally_spaced:
  fixes Y :: "nat \<Rightarrow> real"
  shows "chunk_slope dt (int n) (map (\<lambda>k. (x0 + real k * dt) - x0) [0..<n])
                                (map (\<lambda>k. Y k - Y 0) [0..<n])
         = ols_slope (map (\<lambda>k. x0 + real k * dt) [0..<n]) (map Y [0..<n])"
proof -
  define S1 where "S1 = SX dt (int n)"
  define S2 where "S2 = SXX dt (int n)"
  define A where "A = (\<Sum>k<n. Y k)"
  define K where "K = (\<Sum>k<n. real k * Y k)"
  have s1: "(\<Sum>k<n. real k * dt) = S1" by (simp add: S1_def SX_closed)
  have s2: "(\<Sum>k<n. (real k * dt)\<^sup>2) = S2" by (simp add: S2_def SXX_closed)
  have f1: "(\<Sum>k<n. x0 + real k * dt) = real n * x0 + S1"
    by (simp add: sum.distrib s1)
  have f2: "(\<Sum>k<n. (x0 + real k * dt) * (x0 + real k * dt)) = real n * x0\<^sup>2 + 2 * x0 * S1 + S2"
  proof -
    have "(\<Sum>k<n. (x0 + real k * dt) * (x0 + real k * dt)) =
          (\<Sum>k<n. x0\<^sup>2 + 2 * x0 * (real k * dt) + (real k * dt)\<^sup>2)"
      by (intro sum.cong refl) (simp add: power2_eq_square algebra_simps)
    also have "\<dots> = real n * x0\<^sup>2 + 2 * x0 * (\<Sum>k<n. real k * dt) + (\<Sum>k<n. (real k * dt)\<^sup>2)"
      by (simp add: sum.distrib sum_distrib_left)
    finally show ?thesis by (simp add: s1 s2)
  qed
  have f3: "(\<Sum>k<n. (x0 + real k * dt) * Y k) = x0 * A + dt * K"
  proof -
    have "(\<Sum>k<n. (x0 + real k * dt) * Y k) = (\<Sum>k<n. x0 * Y k + dt * (real k * Y k))"
      by (intro sum.cong refl) (simp add: algebra_simps)
    then show ?thesis by (simp add: sum.distrib sum_distrib_left A_def K_def)
  qed
  have f4: "(\<Sum>k<n. Y k - Y 0) = A - real n * Y 0"
    by (simp add: sum_subtractf A_def)
  have f5: "(\<Sum>k<n. (real k * dt) * (Y k - Y 0)) = dt * K - Y 0 * S1"
  proof -
    have "(\<Sum>k<n. (real k * dt) * (Y k - Y 0)) = (\<Sum>k<n. dt * (real k * Y k) - Y 0 * (real k * dt))"
      by (intro sum.cong refl) (simp add: algebra_simps)
    then show ?thesis by (simp add: sum_subtractf sum_distrib_left K_def s1[symmetric])
  qed
  have code: "chunk_slope dt (int n) (map (\<lambda>k. (x0 + real k * dt) - x0) [0..<n])
                                (map (\<lambda>k. Y k - Y 0) [0..<n])
      = (real n * (dt * K - Y 0 * S1) - S1 * (A - real n * Y 0)) / (real n * S2 - S1 * S1)"
    using f4 f5
    by (simp add: chunk_slope_def Let_def map2_over_same sum_list_map_upt S1_def S2_def)
  have ols: "ols_slope (map (\<lambda>k. x0 + real k * dt) [0..<n]) (map Y [0..<n])
      = (real n * (x0 * A + dt * K) - (real n * x0 + S1) * A)
        / (real n * (real n * x0\<^sup>2 + 2 * x0 * S1 + S2) - (real n * x0 + S1) * (real n * x0 + S1))"
    using f1 f2 f3
    by (simp add: ols_slope_def Let_def map2_over_same sum_list_map_upt comp_def A_def)
  have num: "real n * (dt * K - Y 0 * S1) - S1 * (A - real n * Y 0) =
             real n * (x0 * A + dt * K) - (real n * x0 + S1) * A"
    by (simp add: algebra_simps)
  have den: "real n * S2 - S1 * S1 =
             real n * (real n * x0\<^sup>2 + 2 * x0 * S1 + S2) - (real n * x0 + S1) * (real n * x0 + S1)"
    by (simp add: algebra_simps power2_eq_square)
  show ?thesis
    unfolding code ols num den ..
qed

lemma chunk_slope_list:
  assumes lx: "length xs = n" and ly: "length ys = n" and n: "0 < n"
    and spaced: "\<forall>k<n. xs ! k = xs ! 0 + real k * dt"
  shows "chunk_slope dt (int n) (map (\<lambda>v. v - hd xs) xs) (map (\<lambda>v. v - hd ys) ys)
         = ols_slope xs ys"
proof -
  have "xs \<noteq> []" "ys \<noteq> []" using lx ly n by auto
  then have hx: "hd xs = xs ! 0" and hy: "hd ys = ys ! 0"
    by (simp_all add: hd_conv_nth)
  have xs: "xs = map (\<lambda>k. xs ! 0 + real k * dt) [0..<n]"
  proof (rule nth_equalityI)
    show "length xs = length (map (\<lambda>k. xs ! 0 + real k * dt) [0..<n])"
      by (simp add: lx)
    fix i assume "i < length xs"
    then have i: "i < n" by (simp add: lx)
    then have "xs ! i = xs ! 0 + real i * dt" using spaced by blast
    then show "xs ! i = map (\<lambda>k. xs ! 0 + real k * dt) [0..<n] ! i"
      using i by (simp only: nth_map_upt add_0 minus_nat.diff_0)
  qed
  have ys: "ys = map (\<lambda>k. ys ! k) [0..<n]"
    using ly by (intro nth_equalityI) auto
  have rx: "map (\<lambda>v. v - hd xs) xs = map (\<lambda>k. (xs ! 0 + real k * dt) - xs ! 0) [0..<n]"
    by (subst xs) (simp add: hx comp_def)
  have ry: "map (\<lambda>v. v - hd ys) ys = map (\<lambda>k. ys ! k - ys ! 0) [0..<n]"
    by (subst ys) (simp add: hy comp_def)
  have "chunk_slope dt (int n) (map (\<lambda>k. (xs ! 0 + real k * dt) - xs ! 0) [0..<n])
          (map (\<lambda>k. ys ! k - ys ! 0) [0..<n])
        = ols_slope (map (\<lambda>k. xs ! 0 + real k * dt) [0..<n]) (map (\<lambda>k. ys ! k) [0..<n])"
    by (rule chunk_slope_equally_spaced)
  also have "\<dots> = ols_slope xs ys"
    by (rule arg_cong2[of _ xs _ ys ols_slope, OF xs[symmetric] ys[symmetric]])
  finally show ?thesis
    unfolding rx ry .
qed

lemma reshape_nth:
  assumes "c < rows"
  shows "reshape rows cols a ! c = take cols (drop (c * cols) a)"
  using assms by (simp add: reshape_def)

lemma length_reshape: "length (reshape rows cols a) = rows"
  by (simp add: reshape_def)

lemma py_int_div: "py_int (real a / real b) = int (a div b)"
proof -
  have "0 \<le> real a / real b" by simp
  moreover have "\<lfloor>real a / real b\<rfloor> = int (a div b)"
    by (simp add: floor_divide_of_nat_eq)
  ultimately show ?thesis by (simp add: py_int_def)
qed

lemma chunk_of_take:
  assumes "c < q"
  shows "take n (drop (c * n) (take (n * q) a)) = take n (drop (c * n) a)"
proof -
  have "c * n + n \<le> n * q"
  proof -
    have "(c + 1) * n \<le> q * n" using assms by (intro mult_right_mono) auto
    then show ?thesis by (simp add: algebra_simps)
  qed
  then show ?thesis by (simp add: drop_take min_def)
qed

text \<open>
  C1. Let the file hold the time step \<open>dt\<close> (not zero), the phase, and the phase's time axis
  with at least as many entries as are fitted; let \<open>n = n_per_chunk \<ge> 2\<close>. Then
  \<open>fit_phase\<close> returns and stores one slope per chunk, and for every chunk \<open>c\<close> whose
  times are equally spaced by \<open>dt\<close> (\<open>x\<^sub>k = x\<^sub>0 + k dt\<close>) the stored slope, computed
  from the closed-form \<open>SX\<close> and \<open>SXX\<close> and the sums \<open>SY\<close> and \<open>SXY\<close> over the
  origin-shifted chunk, equals the ordinary least-squares slope of the chunk's phase
  against its time.
\<close>

theorem fit_phase_slope_is_ols:
  assumes x: "f_x st = Some xa" "initial_step xa = Some (x0, dt)" and dt: "dt \<noteq> 0"
    and p: "f_p st = Some ph" and ax: "axis_of st (p_abscissa ph) = Some ta"
    and npc: "py_round (dt_chunk_target / dt) = int n" "2 \<le> n"
    and long: "n * (length (cycles ph) div n) \<le> length (vals ta)"
    and fresh: "f_fit_x st = None" "f_fit_y st = None"
    and c: "c < length (cycles ph) div n"
    and spaced: "\<forall>k<n. vals ta ! (c * n + k) = vals ta ! (c * n) + real k * dt"
  shows "\<exists>st' slope. fit_phase st dt_chunk_target = Returned st' \<and>
           f_fit_y st' = Some slope \<and>
           length slope = length (cycles ph) div n \<and>
           slope ! c = ols_slope (take n (drop (c * n) (vals ta)))
                                 (take n (drop (c * n) (cycles ph)))"
proof -
  define q where "q = length (cycles ph) div n"
  define xc where "xc = take n (drop (c * n) (vals ta))"
  define yc where "yc = take n (drop (c * n) (cycles ph))"
  define x_sub where "x_sub = reshape q n (take (n * q) (vals ta))"
  define y_sub where "y_sub = reshape q n (take (n * q) (cycles ph))"
  define slope where "slope = map2 (chunk_slope dt (int n)) (reset_rows x_sub) (reset_rows y_sub)"
  have n0: "0 < n" using npc by simp
  have cq: "c < q" using c by (simp add: q_def)
  have tot: "nat (int n * int q) = n * q" by (simp add: nat_mult_distrib)
  have run: "fit_phase st dt_chunk_target =
      Returned (st\<lparr>f_fit_x := Some (map (\<lambda>r. sum_list r / real (length r)) x_sub),
                   f_fit_y := Some slope\<rparr>)"
    using dt npc long fresh
    by (simp add: fit_phase_def x p py_int_div Let_def ax tot q_def
        x_sub_def y_sub_def slope_def nat_mult_distrib)
  have len: "length slope = q"
    by (simp add: slope_def reset_rows_def x_sub_def y_sub_def length_reshape)
  have bound: "c * n + n \<le> n * q"
  proof -
    have "(c + 1) * n \<le> q * n" using cq by (intro mult_right_mono) auto
    then show ?thesis by (simp add: algebra_simps)
  qed
  have lx: "length xc = n"
    using bound long by (simp add: xc_def q_def)
  have ly: "length yc = n"
  proof -
    have "n * q \<le> length (cycles ph)" by (simp add: q_def)
    then show ?thesis using bound by (simp add: yc_def)
  qed
  have sp: "\<forall>k<n. xc ! k = xc ! 0 + real k * dt"
  proof (intro allI impI)
    fix k assume k: "k < n"
    have "c * n + k < length (vals ta)" "c * n < length (vals ta)"
      using bound long k n0 by (simp_all add: q_def)
    then have "xc ! k = vals ta ! (c * n + k)" "xc ! 0 = vals ta ! (c * n)"
      using k n0 by (simp_all add: xc_def)
    then show "xc ! k = xc ! 0 + real k * dt"
      using spaced k by simp
  qed
  have xr: "x_sub ! c = xc"
    using cq by (simp add: x_sub_def reshape_nth chunk_of_take xc_def)
  have yr: "y_sub ! c = yc"
    using cq by (simp add: y_sub_def reshape_nth chunk_of_take yc_def)
  have "slope ! c = chunk_slope dt (int n) (map (\<lambda>v. v - hd xc) xc) (map (\<lambda>v. v - hd yc) yc)"
    using cq xr yr
    by (simp add: slope_def reset_rows_def x_sub_def y_sub_def length_reshape)
  also have "\<dots> = ols_slope xc yc"
    by (rule chunk_slope_list[OF lx ly n0 sp])
  finally have sl: "slope ! c = ols_slope xc yc" .
  show ?thesis
  proof (intro exI conjI)
    show "fit_phase st dt_chunk_target =
      Returned (st\<lparr>f_fit_x := Some (map (\<lambda>r. sum_list r / real (length r)) x_sub),
                   f_fit_y := Some slope\<rparr>)"
      by (rule run)
    show "f_fit_y (st\<lparr>f_fit_x := Some (map (\<lambda>r. sum_list r / real (length r)) x_sub),
                   f_fit_y := Some slope\<rparr>) = Some slope"
      by simp
    show "length slope = length (cycles ph) div n"
      using len by (simp add: q_def)
    show "slope ! c = ols_slope (take n (drop (c * n) (vals ta)))
                                 (take n (drop (c * n) (cycles ph)))"
      using sl by (simp add: xc_def yc_def)
  qed
qed

lemma py_round_3: "py_round (3 / 1) = 3"
proof -
  have "\<lfloor>3 :: real\<rfloor> = 3" by simp
  then show ?thesis by (simp add: py_round_def Let_def)
qed

theorem fit_phase_slope_is_ols_witness:
  "\<exists>st' slope. fit_phase quad6 3 = Returned st' \<and> f_fit_y st' = Some slope \<and>
     length slope = 2 \<and> slope ! 1 = ols_slope [3, 4, 5] [9, 16, 25] \<and>
     ols_slope [3, 4, 5] [9, 16, 25] = 8"
proof -
  have x: "f_x quad6 = Some \<lparr>vals = [0, 1, 2, 3, 4, 5], initial_step = Some (0, 1)\<rparr>"
    and i: "initial_step \<lparr>vals = [0, 1, 2, 3, 4, 5], initial_step = Some (0, 1)\<rparr> = Some (0, 1)"
    and p: "f_p quad6 = Some \<lparr>cycles = [0, 1, 4, 9, 16, 25], p_abscissa = Abs_x\<rparr>"
    and ax: "axis_of quad6 (p_abscissa \<lparr>cycles = [0, 1, 4, 9, 16, 25], p_abscissa = Abs_x\<rparr>) =
               Some \<lparr>vals = [0, 1, 2, 3, 4, 5], initial_step = Some (0, 1)\<rparr>"
    and fresh: "f_fit_x quad6 = None" "f_fit_y quad6 = None"
    by (simp_all add: quad6_def empty_signal_def axis_of_def)
  have d: "(1::real) \<noteq> 0" by simp
  have npc: "py_round (3 / 1) = int 3" "2 \<le> (3::nat)"
    using py_round_3 by simp_all
  have long: "3 * (length (cycles \<lparr>cycles = [0, 1, 4, 9, 16, 25 :: real], p_abscissa = Abs_x\<rparr>) div 3)
              \<le> length (vals \<lparr>vals = [0, 1, 2, 3, 4, 5 :: real], initial_step = Some (0, 1)\<rparr>)"
    by simp
  have c: "1 < length (cycles \<lparr>cycles = [0, 1, 4, 9, 16, 25 :: real], p_abscissa = Abs_x\<rparr>) div 3"
    by simp
  have sp: "\<forall>k<3. vals \<lparr>vals = [0, 1, 2, 3, 4, 5 :: real], initial_step = Some (0, 1)\<rparr> ! (1 * 3 + k) =
      vals \<lparr>vals = [0, 1, 2, 3, 4, 5], initial_step = Some (0, 1)\<rparr> ! (1 * 3) + real k * 1"
    by (auto simp: less_Suc_eq numeral_3_eq_3)
  have chunks: "take 3 (drop (1 * 3) (vals \<lparr>vals = [0, 1, 2, 3, 4, 5 :: real], initial_step = Some (0, 1)\<rparr>))
                  = [3, 4, 5]"
      "take 3 (drop (1 * 3) (cycles \<lparr>cycles = [0, 1, 4, 9, 16, 25 :: real], p_abscissa = Abs_x\<rparr>))
                  = [9, 16, 25]"
    by (simp_all add: numeral_3_eq_3)
  have v: "ols_slope [3, 4, 5] [9, 16, 25] = 8"
    by (simp add: ols_slope_def)
  obtain st' slope where "fit_phase quad6 3 = Returned st'" "f_fit_y st' = Some slope"
    "length slope = length (cycles \<lparr>cycles = [0, 1, 4, 9, 16, 25 :: real], p_abscissa = Abs_x\<rparr>) div 3"
    "slope ! 1 = ols_slope [3, 4, 5] [9, 16, 25]"
    using fit_phase_slope_is_ols[OF x i d p ax npc long fresh c sp] unfolding chunks by blast
  then show ?thesis
    using v by (intro exI[of _ st'] exI[of _ slope]) simp
qed

lemma fit_phase_quad6: 
  "fit_phase quad6 3 = Returned (quad6\<lparr>f_fit_x := Some [1, 4], f_fit_y := Some [2, 8]\<rparr>)"
proof -
  have r: "reshape 2 3 [a, b, c, d, e, f] = [[a, b, c], [d, e, f]]" for a b c d e f :: real
    by (simp add: reshape_def numeral_2_eq_2 numeral_3_eq_3)
  have "nat (py_int (6 / 3)) = 2" by (simp add: py_int_def)
  then show ?thesis
    using py_round_3
    by (simp add: fit_phase_def quad6_def empty_signal_def axis_of_def Let_def py_int_def r
        reset_rows_def chunk_slope_def SX_def SXX_def)
qed

subsection \<open>The example files are reachable\<close>

lemma load_pair2: "load_nparray empty_signal [1, 1] 1 = Returned pair2"
  by (simp add: load_nparray_def empty_signal_def pair2_def arange_def numeral_2_eq_2)

lemma load_one1: "load_nparray empty_signal [1] 1 = Returned one1"
  by (simp add: load_nparray_def empty_signal_def one1_def arange_def)

lemma hilbert_on_peak3_axis:
  "freq_filter_Hilbert_complex (peak3\<lparr>f_Hc := None\<rparr>) = Returned peak3"
  by (simp add: freq_filter_Hilbert_complex_def peak3_def empty_signal_def)

lemma binarate_ramp4_start:
  "time_mask_binarate ramp4 ''start'' =
     Returned (ramp4\<lparr>f_mask_binarate := Some \<lparr>bits = [True, True, True, True], m_abscissa = Abs_x\<rparr>,
                     f_x_binarated := Some \<lparr>vals = [0, 1, 2, 3], initial_step = Some (0, 1)\<rparr>\<rparr>)"
proof -
  have "floorlog 2 4 = 3" by code_simp
  then have "floor_log2 4 = 2"
    using floor_log2_floorlog[of 4] by (simp add: floor_log2_def)
  then show ?thesis
    by (simp add: time_mask_binarate_def ramp4_def empty_signal_def binarate_bounds_def
        arange_def select_def upt_0_4 Let_def)
qed

end
